theory Spec2Isabelle
  imports Main "HOL-Library.Sublist" "HOL-Library.AList"
begin

section \<open>JavaScript values\<close>

text \<open>
  Request bodies, tool arguments and schemas are JSON data handled as untyped JavaScript
  values. An object is an association list of its own enumerable properties in insertion
  order. An array carries its elements and, second, the named (non-index) properties that
  an assignment such as \<^verbatim>\<open>arr._meta = ...\<close> adds to it; a parsed JSON array has none.
  Numbers are used by the gateway only through their truthiness, so they are kept as
  integers. Strings are byte strings (UTF-8): a literal of the source outside ASCII is
  written out as its bytes.
\<close>

datatype jsval =
    JUndefined
  | JNull
  | JBool bool
  | JNum int
  | JStr string
  | JArr "jsval list" "(string \<times> jsval) list"
  | JObj "(string \<times> jsval) list"

text \<open>
  A thrown value, or the reason of a rejected promise, as a \<^verbatim>\<open>catch (error: any)\<close>
  block observes it. \<^verbatim>\<open>Nullish\<close> is \<^verbatim>\<open>null\<close> or \<^verbatim>\<open>undefined\<close>: reading
  \<^verbatim>\<open>error.message\<close> of it throws a TypeError. \<^verbatim>\<open>Exn m\<close> is any other value,
  with the text \<^verbatim>\<open>m\<close> that \<^verbatim>\<open>${error.message}\<close> renders: the message of an
  \<^verbatim>\<open>Error\<close> object, \<^verbatim>\<open>undefined\<close> for a value that has none.
\<close>

datatype exn = Exn string | Nullish

text \<open>
  A fault that leaves the service: the TypeError raised by the service's own code when it
  reads a property of \<^verbatim>\<open>null\<close> or \<^verbatim>\<open>undefined\<close>.
\<close>

datatype fault = TypeError

section \<open>Entry MCP service (entry-mcp.service.ts)\<close>

subsection \<open>Data model\<close>

datatype server_status = Running | Starting | Stopping | Stopped | Error

text \<open>\<^verbatim>\<open>MCPToolInfo\<close>: \<^verbatim>\<open>{name, description?, inputSchema?}\<close>.\<close>

record MCPToolInfo =
  tool_name :: string
  tool_description :: "string option"
  tool_inputSchema :: "jsval option"

text \<open>
  \<^verbatim>\<open>MCPServer\<close>, the fields the service reads: \<^verbatim>\<open>id\<close>, \<^verbatim>\<open>name\<close>,
  \<^verbatim>\<open>description?\<close>, \<^verbatim>\<open>status\<close>, \<^verbatim>\<open>disabled?\<close> and
  \<^verbatim>\<open>toolPermissions?: Record<string, boolean>\<close>.
\<close>

record MCPServer =
  server_id :: string
  server_name :: string
  server_description :: "string option"
  status :: server_status
  disabled :: "bool option"
  toolPermissions :: "(string \<Rightarrow> bool option) option"

text \<open>\<^verbatim>\<open>MCPServerInfo\<close>: one entry of a listing result.\<close>

record MCPServerInfo =
  info_name :: string
  info_description :: "string option"
  info_status :: server_status
  toolCount :: nat
  tools :: "MCPToolInfo list"

record ListMCPToolsParams =
  list_mcpName :: "string option"
  list_projectId :: "string option"

record ListMCPToolsResult =
  servers :: "MCPServerInfo list"
  message :: "string option"

record CallMCPToolParams =
  mcpName :: string
  toolName :: string
  arguments :: jsval

text \<open>\<^verbatim>\<open>ToolResultContent\<close>: \<^verbatim>\<open>{type, text?, data?, mimeType?}\<close>.\<close>

record ToolResultContent =
  content_type :: string
  item_text :: "string option"
  item_data :: "string option"
  item_mimeType :: "string option"

record CallMCPToolResult =
  content :: "ToolResultContent list"
  isError :: bool
  errorCode :: "string option"

text \<open>
  What the backend's \<^verbatim>\<open>callTool\<close> resolves to is untyped (\<^verbatim>\<open>any\<close>): an object
  whose \<^verbatim>\<open>content\<close> and \<^verbatim>\<open>isError\<close> may be missing, and whose content
  items are bare strings or objects with optional fields.
\<close>

datatype raw_item =
    RawString string
  | RawObject "string option" "string option" "string option" "string option"

record raw_result =
  raw_content :: "raw_item list option"
  raw_isError :: "bool option"

text \<open>
  \<^verbatim>\<open>EntryMCPServiceDeps\<close>: the Backend Registry as injected into the service. The two
  asynchronous primitives may reject; a rejection is the left summand.
\<close>

record EntryMCPServiceDeps =
  getServers :: "MCPServer list"
  getServerTools :: "string \<Rightarrow> exn + MCPToolInfo list"
  callTool :: "string \<Rightarrow> string \<Rightarrow> jsval \<Rightarrow> exn + raw_result"

text \<open>
  The service's only effects are its calls into the registry. Each operation returns,
  beside its result, the calls it made, in order.
\<close>

datatype dep_call =
    GetServers
  | GetServerTools string
  | CallTool string string jsval

fun is_CallTool :: "dep_call \<Rightarrow> bool" where
  "is_CallTool (CallTool s t a) = True"
| "is_CallTool GetServers = False"
| "is_CallTool (GetServerTools i) = False"

subsection \<open>validateCallParams\<close>

record validation =
  valid :: bool
  error :: "string option"
  v_errorCode :: "string option"
  serverId :: "string option"

definition invalid :: "string \<Rightarrow> string \<Rightarrow> validation" where
  "invalid msg code =
     \<lparr>valid = False, error = Some msg, v_errorCode = Some code, serverId = None\<rparr>"

text \<open>
  \<^verbatim>\<open>server.toolPermissions && server.toolPermissions[toolName] === false\<close>
\<close>

definition tool_explicitly_disabled :: "MCPServer \<Rightarrow> string \<Rightarrow> bool" where
  "tool_explicitly_disabled server t =
     (case toolPermissions server of
        None \<Rightarrow> False
      | Some perms \<Rightarrow> perms t = Some False)"

definition validateCallParams ::
  "EntryMCPServiceDeps \<Rightarrow> CallMCPToolParams \<Rightarrow> validation \<times> dep_call list" where
  "validateCallParams deps params =
     (case find (\<lambda>s. server_name s = mcpName params) (getServers deps) of
        None \<Rightarrow>
          (invalid (''MCP server not found: '' @ mcpName params) ''SERVER_NOT_FOUND'',
           [GetServers])
      | Some server \<Rightarrow>
          if status server \<noteq> Running then
            (invalid (''MCP server is not running: '' @ mcpName params) ''SERVER_NOT_RUNNING'',
             [GetServers])
          else if disabled server = Some True then
            (invalid (''MCP server is disabled: '' @ mcpName params) ''SERVER_DISABLED'',
             [GetServers])
          else
            (case getServerTools deps (server_id server) of
               Inl e \<Rightarrow>
                 (invalid (''Failed to get tools from server: '' @ mcpName params)
                    ''TOOLS_FETCH_FAILED'',
                  [GetServers, GetServerTools (server_id server)])
             | Inr ts \<Rightarrow>
                 (case find (\<lambda>t. tool_name t = toolName params) ts of
                    None \<Rightarrow>
                      (invalid (''Tool not found: '' @ toolName params @ '' on server ''
                                @ mcpName params) ''TOOL_NOT_FOUND'',
                       [GetServers, GetServerTools (server_id server)])
                  | Some tool \<Rightarrow>
                      if tool_explicitly_disabled server (toolName params) then
                        (invalid (''Tool is disabled: '' @ toolName params) ''TOOL_DISABLED'',
                         [GetServers, GetServerTools (server_id server)])
                      else
                        (\<lparr>valid = True, error = None, v_errorCode = None,
                          serverId = Some (server_id server)\<rparr>,
                         [GetServers, GetServerTools (server_id server)]))))"

subsection \<open>normalizeContent and callMCPTool\<close>

text \<open>
  The result of \<^verbatim>\<open>callMCPTool\<close> is the left summand when an exception leaves the
  method: the catch block of the backend call reads \<^verbatim>\<open>error.message\<close>, which itself
  throws when the rejection is \<^verbatim>\<open>null\<close> or \<^verbatim>\<open>undefined\<close>.
\<close>

definition text_item :: "string option \<Rightarrow> ToolResultContent" where
  "text_item t = \<lparr>content_type = ''text'', item_text = t, item_data = None, item_mimeType = None\<rparr>"

fun normalizeItem :: "raw_item \<Rightarrow> ToolResultContent" where
  "normalizeItem (RawString s) = text_item (Some s)"
| "normalizeItem (RawObject ty tx d m) =
     \<lparr>content_type = (case ty of None \<Rightarrow> ''text''
                                | Some v \<Rightarrow> if v = [] then ''text'' else v),
      item_text = tx, item_data = d, item_mimeType = m\<rparr>"

definition normalizeContent :: "raw_item list \<Rightarrow> ToolResultContent list" where
  "normalizeContent items = map normalizeItem items"

definition callMCPTool ::
  "EntryMCPServiceDeps \<Rightarrow> CallMCPToolParams \<Rightarrow> (fault + CallMCPToolResult) \<times> dep_call list"
  where
  "callMCPTool deps params =
     (case validateCallParams deps params of
        (v, calls) \<Rightarrow>
          if \<not> valid v then
            (Inr \<lparr>content = [text_item (error v)], isError = True, errorCode = v_errorCode v\<rparr>,
             calls)
          else
            (case callTool deps (mcpName params) (toolName params) (arguments params) of
               Inr result \<Rightarrow>
                 (Inr \<lparr>content = normalizeContent
                                  (case raw_content result of None \<Rightarrow> [] | Some c \<Rightarrow> c),
                       isError = (case raw_isError result of None \<Rightarrow> False | Some b \<Rightarrow> b),
                       errorCode = None\<rparr>,
                  calls @ [CallTool (mcpName params) (toolName params) (arguments params)])
             | Inl (Exn msg) \<Rightarrow>
                 (Inr \<lparr>content = [text_item (Some (''Error: '' @ msg))],
                       isError = True,
                       errorCode = Some ''CALL_FAILED''\<rparr>,
                  calls @ [CallTool (mcpName params) (toolName params) (arguments params)])
             | Inl Nullish \<Rightarrow>
                 (Inl TypeError,
                  calls @ [CallTool (mcpName params) (toolName params) (arguments params)])))"

subsection \<open>listMCPTools\<close>

text \<open>The three message texts of the source, as their UTF-8 bytes.\<close>

definition guidance_message :: string where
  "guidance_message =
     [CHR 0xE8, CHR 0xAF, CHR 0xB7, CHR 0xE6, CHR 0x9F, CHR 0xA5, CHR 0xE7, CHR 0x9C, CHR 0x8B] @
     ''mcp-router'' @
     [CHR 0xE6, CHR 0x8A, CHR 0x80, CHR 0xE8, CHR 0x83, CHR 0xBD]"

definition not_found_prefix :: string where
  "not_found_prefix =
     ''MCP'' @
     [CHR 0xE6, CHR 0x9C, CHR 0x8D, CHR 0xE5, CHR 0x8A, CHR 0xA1, CHR 0xE5, CHR 0x99, CHR 0xA8] @
     '' '' @
     [CHR 0x22]"

definition not_found_suffix :: string where
  "not_found_suffix =
     [CHR 0x22] @
     '' '' @
     [CHR 0xE6, CHR 0x9C, CHR 0xAA, CHR 0xE6, CHR 0x89, CHR 0xBE, CHR 0xE5, CHR 0x88, CHR 0xB0] @
     [CHR 0xE6, CHR 0x88, CHR 0x96, CHR 0xE6, CHR 0x9C, CHR 0xAA, CHR 0xE8, CHR 0xBF, CHR 0x90] @
     [CHR 0xE8, CHR 0xA1, CHR 0x8C]"

definition fetch_failed_prefix :: string where
  "fetch_failed_prefix =
     [CHR 0xE8, CHR 0x8E, CHR 0xB7, CHR 0xE5, CHR 0x8F, CHR 0x96] @
     '' '' @
     [CHR 0x22]"

definition fetch_failed_suffix :: string where
  "fetch_failed_suffix =
     [CHR 0x22] @
     '' '' @
     [CHR 0xE7, CHR 0x9A, CHR 0x84, CHR 0xE5, CHR 0xB7, CHR 0xA5, CHR 0xE5, CHR 0x85, CHR 0xB7] @
     [CHR 0xE5, CHR 0x88, CHR 0x97, CHR 0xE8, CHR 0xA1, CHR 0xA8, CHR 0xE5, CHR 0xA4, CHR 0xB1] @
     [CHR 0xE8, CHR 0xB4, CHR 0xA5]"

text \<open>
  \<^verbatim>\<open>!params.mcpName\<close> holds for a missing name and for the empty string. The lookup
  keeps only a server that is running and not disabled. \<^verbatim>\<open>params.projectId\<close> is
  never read.
\<close>

definition listMCPTools ::
  "EntryMCPServiceDeps \<Rightarrow> ListMCPToolsParams \<Rightarrow> ListMCPToolsResult \<times> dep_call list" where
  "listMCPTools deps params =
     (case list_mcpName params of
        None \<Rightarrow> (\<lparr>servers = [], message = Some guidance_message\<rparr>, [])
      | Some n \<Rightarrow>
          if n = [] then (\<lparr>servers = [], message = Some guidance_message\<rparr>, [])
          else
            (case find (\<lambda>s. server_name s = n \<and> status s = Running \<and> disabled s \<noteq> Some True)
                       (getServers deps) of
               None \<Rightarrow>
                 (\<lparr>servers = [], message = Some (not_found_prefix @ n @ not_found_suffix)\<rparr>,
                  [GetServers])
             | Some server \<Rightarrow>
                 (case getServerTools deps (server_id server) of
                    Inr ts \<Rightarrow>
                      (\<lparr>servers =
                          [\<lparr>info_name = server_name server,
                            info_description = server_description server,
                            info_status = status server,
                            toolCount = length ts,
                            tools = ts\<rparr>],
                        message = None\<rparr>,
                       [GetServers, GetServerTools (server_id server)])
                  | Inl e \<Rightarrow>
                      (\<lparr>servers = [],
                        message = Some (fetch_failed_prefix @ n @ fetch_failed_suffix)\<rparr>,
                       [GetServers, GetServerTools (server_id server)]))))"

subsection \<open>The two tool definitions and the tool-listing handler\<close>

record schema_property =
  prop_type :: string
  prop_description :: string
  additionalProperties :: "bool option"

record input_schema =
  schema_type :: string
  properties :: "(string \<times> schema_property) list"
  required :: "string list"

record tool_definition =
  def_name :: string
  def_description :: string
  inputSchema :: input_schema


definition list_mcp_tools_description :: string where
  "list_mcp_tools_description =
     [CHR 0xE6, CHR 0x9F, CHR 0xA5, CHR 0xE8, CHR 0xAF, CHR 0xA2, CHR 0xE6, CHR 0x8C, CHR 0x87] @
     [CHR 0xE5, CHR 0xAE, CHR 0x9A] @
     ''MCP'' @
     [CHR 0xE6, CHR 0x9C, CHR 0x8D, CHR 0xE5, CHR 0x8A, CHR 0xA1, CHR 0xE5, CHR 0x99, CHR 0xA8] @
     [CHR 0xE7, CHR 0x9A, CHR 0x84, CHR 0xE5, CHR 0x8F, CHR 0xAF, CHR 0xE7, CHR 0x94, CHR 0xA8] @
     [CHR 0xE5, CHR 0xB7, CHR 0xA5, CHR 0xE5, CHR 0x85, CHR 0xB7, CHR 0xE5, CHR 0x88, CHR 0x97] @
     [CHR 0xE8, CHR 0xA1, CHR 0xA8, CHR 0xE3, CHR 0x80, CHR 0x82, CHR 0x0A, CHR 0x0A, CHR 0xE4] @
     [CHR 0xBD, CHR 0xBF, CHR 0xE7, CHR 0x94, CHR 0xA8, CHR 0xE5, CHR 0x89, CHR 0x8D, CHR 0xE6] @
     [CHR 0x8F, CHR 0x90, CHR 0xEF, CHR 0xBC, CHR 0x9A, CHR 0x0A] @
     ''- '' @
     [CHR 0xE5, CHR 0xBF, CHR 0x85, CHR 0xE9, CHR 0xA1, CHR 0xBB, CHR 0xE5, CHR 0x85, CHR 0x88] @
     [CHR 0xE9, CHR 0x98, CHR 0x85, CHR 0xE8, CHR 0xAF, CHR 0xBB] @
     '' mcp-router '' @
     [CHR 0xE7, CHR 0x9A, CHR 0x84] @
     '' SKILL.md '' @
     [CHR 0xE6, CHR 0x8A, CHR 0x80, CHR 0xE8, CHR 0x83, CHR 0xBD, CHR 0xE6, CHR 0x96, CHR 0x87] @
     [CHR 0xE4, CHR 0xBB, CHR 0xB6, CHR 0xE4, CHR 0xBA, CHR 0x86, CHR 0xE8, CHR 0xA7, CHR 0xA3] @
     [CHR 0xE6, CHR 0x9C, CHR 0x89, CHR 0xE5, CHR 0x93, CHR 0xAA, CHR 0xE4, CHR 0xBA, CHR 0x9B] @
     [CHR 0xE5, CHR 0x8F, CHR 0xAF, CHR 0xE7, CHR 0x94, CHR 0xA8, CHR 0xE7, CHR 0x9A, CHR 0x84] @
     ''MCP'' @
     [CHR 0xE6, CHR 0x9C, CHR 0x8D, CHR 0xE5, CHR 0x8A, CHR 0xA1, CHR 0xE5, CHR 0x99, CHR 0xA8] @
     [CHR 0x0A] @
     ''- '' @
     [CHR 0xE5, CHR 0xBF, CHR 0x85, CHR 0xE9, CHR 0xA1, CHR 0xBB, CHR 0xE6, CHR 0x8C, CHR 0x87] @
     [CHR 0xE5, CHR 0xAE, CHR 0x9A] @
     '' mcpName '' @
     [CHR 0xE5, CHR 0x8F, CHR 0x82, CHR 0xE6, CHR 0x95, CHR 0xB0, CHR 0x0A, CHR 0x0A, CHR 0xE8] @
     [CHR 0xBF, CHR 0x94, CHR 0xE5, CHR 0x9B, CHR 0x9E, CHR 0xE4, CHR 0xBF, CHR 0xA1, CHR 0xE6] @
     [CHR 0x81, CHR 0xAF, CHR 0xE5, CHR 0x8C, CHR 0x85, CHR 0xE5, CHR 0x90, CHR 0xAB, CHR 0xEF] @
     [CHR 0xBC, CHR 0x9A, CHR 0xE6, CHR 0x9C, CHR 0x8D, CHR 0xE5, CHR 0x8A, CHR 0xA1, CHR 0xE5] @
     [CHR 0x99, CHR 0xA8, CHR 0xE6, CHR 0x8F, CHR 0x8F, CHR 0xE8, CHR 0xBF, CHR 0xB0, CHR 0xE3] @
     [CHR 0x80, CHR 0x81, CHR 0xE5, CHR 0xB7, CHR 0xA5, CHR 0xE5, CHR 0x85, CHR 0xB7, CHR 0xE5] @
     [CHR 0x88, CHR 0x97, CHR 0xE8, CHR 0xA1, CHR 0xA8, CHR 0xE5, CHR 0x8F, CHR 0x8A, CHR 0xE6] @
     [CHR 0xAF, CHR 0x8F, CHR 0xE4, CHR 0xB8, CHR 0xAA, CHR 0xE5, CHR 0xB7, CHR 0xA5, CHR 0xE5] @
     [CHR 0x85, CHR 0xB7, CHR 0xE7, CHR 0x9A, CHR 0x84, CHR 0xE7, CHR 0x94, CHR 0xA8, CHR 0xE9] @
     [CHR 0x80, CHR 0x94, CHR 0xE8, CHR 0xAF, CHR 0xB4, CHR 0xE6, CHR 0x98, CHR 0x8E, CHR 0xE3] @
     [CHR 0x80, CHR 0x82]"

definition list_mcpName_description :: string where
  "list_mcpName_description =
     [CHR 0xE5, CHR 0xBF, CHR 0x85, CHR 0xE5, CHR 0xA1, CHR 0xAB, CHR 0xEF, CHR 0xBC, CHR 0x8C] @
     ''MCP'' @
     [CHR 0xE6, CHR 0x9C, CHR 0x8D, CHR 0xE5, CHR 0x8A, CHR 0xA1, CHR 0xE5, CHR 0x99, CHR 0xA8] @
     [CHR 0xE5, CHR 0x90, CHR 0x8D, CHR 0xE7, CHR 0xA7, CHR 0xB0, CHR 0xEF, CHR 0xBC, CHR 0x88] @
     [CHR 0xE4, CHR 0xBB, CHR 0x8E] @
     ''SKILL.md'' @
     [CHR 0xE6, CHR 0x8A, CHR 0x80, CHR 0xE8, CHR 0x83, CHR 0xBD, CHR 0xE6, CHR 0x96, CHR 0x87] @
     [CHR 0xE4, CHR 0xBB, CHR 0xB6, CHR 0xE4, CHR 0xB8, CHR 0xAD, CHR 0xE8, CHR 0x8E, CHR 0xB7] @
     [CHR 0xE5, CHR 0x8F, CHR 0x96, CHR 0xEF, CHR 0xBC, CHR 0x89]"

definition call_mcp_tool_description :: string where
  "call_mcp_tool_description =
     [CHR 0xE8, CHR 0xB0, CHR 0x83, CHR 0xE7, CHR 0x94, CHR 0xA8, CHR 0xE6, CHR 0x8C, CHR 0x87] @
     [CHR 0xE5, CHR 0xAE, CHR 0x9A] @
     ''MCP'' @
     [CHR 0xE6, CHR 0x9C, CHR 0x8D, CHR 0xE5, CHR 0x8A, CHR 0xA1, CHR 0xE5, CHR 0x99, CHR 0xA8] @
     [CHR 0xE4, CHR 0xB8, CHR 0x8A, CHR 0xE7, CHR 0x9A, CHR 0x84, CHR 0xE5, CHR 0xB7, CHR 0xA5] @
     [CHR 0xE5, CHR 0x85, CHR 0xB7, CHR 0xE3, CHR 0x80, CHR 0x82, CHR 0x0A, CHR 0x0A, CHR 0xE4] @
     [CHR 0xBD, CHR 0xBF, CHR 0xE7, CHR 0x94, CHR 0xA8, CHR 0xE6, CHR 0xB5, CHR 0x81, CHR 0xE7] @
     [CHR 0xA8, CHR 0x8B, CHR 0xEF, CHR 0xBC, CHR 0x9A, CHR 0x0A] @
     ''1. '' @
     [CHR 0xE5, CHR 0x85, CHR 0x88, CHR 0xE4, CHR 0xBD, CHR 0xBF, CHR 0xE7, CHR 0x94, CHR 0xA8] @
     '' list_mcp_tools '' @
     [CHR 0xE6, CHR 0x9F, CHR 0xA5, CHR 0xE8, CHR 0xAF, CHR 0xA2, CHR 0xE7, CHR 0x9B, CHR 0xAE] @
     [CHR 0xE6, CHR 0xA0, CHR 0x87, CHR 0xE6, CHR 0x9C, CHR 0x8D, CHR 0xE5, CHR 0x8A, CHR 0xA1] @
     [CHR 0xE5, CHR 0x99, CHR 0xA8, CHR 0xE7, CHR 0x9A, CHR 0x84, CHR 0xE5, CHR 0xB7, CHR 0xA5] @
     [CHR 0xE5, CHR 0x85, CHR 0xB7, CHR 0xE5, CHR 0x88, CHR 0x97, CHR 0xE8, CHR 0xA1, CHR 0xA8] @
     [CHR 0x0A] @
     ''2. '' @
     [CHR 0xE6, CHR 0xA0, CHR 0xB9, CHR 0xE6, CHR 0x8D, CHR 0xAE, CHR 0xE5, CHR 0xB7, CHR 0xA5] @
     [CHR 0xE5, CHR 0x85, CHR 0xB7, CHR 0xE6, CHR 0x8F, CHR 0x8F, CHR 0xE8, CHR 0xBF, CHR 0xB0] @
     [CHR 0xE9, CHR 0x80, CHR 0x89, CHR 0xE6, CHR 0x8B, CHR 0xA9, CHR 0xE5, CHR 0x90, CHR 0x88] @
     [CHR 0xE9, CHR 0x80, CHR 0x82, CHR 0xE7, CHR 0x9A, CHR 0x84, CHR 0xE5, CHR 0xB7, CHR 0xA5] @
     [CHR 0xE5, CHR 0x85, CHR 0xB7, CHR 0x0A] @
     ''3. '' @
     [CHR 0xE6, CHR 0x8C, CHR 0x89, CHR 0xE7, CHR 0x85, CHR 0xA7, CHR 0xE5, CHR 0xB7, CHR 0xA5] @
     [CHR 0xE5, CHR 0x85, CHR 0xB7, CHR 0xE7, CHR 0x9A, CHR 0x84] @
     '' inputSchema '' @
     [CHR 0xE6, CHR 0x8F, CHR 0x90, CHR 0xE4, CHR 0xBE, CHR 0x9B, CHR 0xE6, CHR 0xAD, CHR 0xA3] @
     [CHR 0xE7, CHR 0xA1, CHR 0xAE, CHR 0xE7, CHR 0x9A, CHR 0x84, CHR 0xE5, CHR 0x8F, CHR 0x82] @
     [CHR 0xE6, CHR 0x95, CHR 0xB0, CHR 0x0A, CHR 0x0A, CHR 0xE6, CHR 0xB3, CHR 0xA8, CHR 0xE6] @
     [CHR 0x84, CHR 0x8F, CHR 0xE4, CHR 0xBA, CHR 0x8B, CHR 0xE9, CHR 0xA1, CHR 0xB9, CHR 0xEF] @
     [CHR 0xBC, CHR 0x9A, CHR 0x0A] @
     ''- '' @
     [CHR 0xE8, CHR 0xB0, CHR 0x83, CHR 0xE7, CHR 0x94, CHR 0xA8, CHR 0xE5, CHR 0x89, CHR 0x8D] @
     [CHR 0xE5, CHR 0xBF, CHR 0x85, CHR 0xE9, CHR 0xA1, CHR 0xBB, CHR 0xE7, CHR 0xA1, CHR 0xAE] @
     [CHR 0xE8, CHR 0xAE, CHR 0xA4, CHR 0xE5, CHR 0xB7, CHR 0xA5, CHR 0xE5, CHR 0x85, CHR 0xB7] @
     [CHR 0xE5, CHR 0x90, CHR 0x8D, CHR 0xE7, CHR 0xA7, CHR 0xB0, CHR 0xE5, CHR 0x92, CHR 0x8C] @
     [CHR 0xE5, CHR 0x8F, CHR 0x82, CHR 0xE6, CHR 0x95, CHR 0xB0, CHR 0xE6, CHR 0xA0, CHR 0xBC] @
     [CHR 0xE5, CHR 0xBC, CHR 0x8F, CHR 0xE6, CHR 0xAD, CHR 0xA3, CHR 0xE7, CHR 0xA1, CHR 0xAE] @
     [CHR 0x0A] @
     ''- '' @
     [CHR 0xE5, CHR 0xA6, CHR 0x82, CHR 0xE6, CHR 0x9E, CHR 0x9C, CHR 0xE8, CHR 0xB0, CHR 0x83] @
     [CHR 0xE7, CHR 0x94, CHR 0xA8, CHR 0xE5, CHR 0xA4, CHR 0xB1, CHR 0xE8, CHR 0xB4, CHR 0xA5] @
     [CHR 0xEF, CHR 0xBC, CHR 0x8C, CHR 0xE8, CHR 0xAF, CHR 0xB7, CHR 0xE6, CHR 0xA3, CHR 0x80] @
     [CHR 0xE6, CHR 0x9F, CHR 0xA5, CHR 0xE5, CHR 0x8F, CHR 0x82, CHR 0xE6, CHR 0x95, CHR 0xB0] @
     [CHR 0xE6, CHR 0x98, CHR 0xAF, CHR 0xE5, CHR 0x90, CHR 0xA6, CHR 0xE7, CHR 0xAC, CHR 0xA6] @
     [CHR 0xE5, CHR 0x90, CHR 0x88, CHR 0xE5, CHR 0xB7, CHR 0xA5, CHR 0xE5, CHR 0x85, CHR 0xB7] @
     [CHR 0xE8, CHR 0xA6, CHR 0x81, CHR 0xE6, CHR 0xB1, CHR 0x82, CHR 0x0A] @
     ''- '' @
     [CHR 0xE4, CHR 0xB8, CHR 0x8D, CHR 0xE8, CHR 0xA6, CHR 0x81, CHR 0xE9, CHR 0x87, CHR 0x8D] @
     [CHR 0xE5, CHR 0xA4, CHR 0x8D, CHR 0xE8, CHR 0xB0, CHR 0x83, CHR 0xE7, CHR 0x94, CHR 0xA8] @
     [CHR 0xE5, CHR 0x90, CHR 0x8C, CHR 0xE4, CHR 0xB8, CHR 0x80, CHR 0xE5, CHR 0xB7, CHR 0xA5] @
     [CHR 0xE5, CHR 0x85, CHR 0xB7, CHR 0xEF, CHR 0xBC, CHR 0x8C, CHR 0xE9, CHR 0x99, CHR 0xA4] @
     [CHR 0xE9, CHR 0x9D, CHR 0x9E, CHR 0xE7, CHR 0x94, CHR 0xA8, CHR 0xE6, CHR 0x88, CHR 0xB7] @
     [CHR 0xE6, CHR 0x98, CHR 0x8E, CHR 0xE7, CHR 0xA1, CHR 0xAE, CHR 0xE8, CHR 0xA6, CHR 0x81] @
     [CHR 0xE6, CHR 0xB1, CHR 0x82]"

definition call_mcpName_description :: string where
  "call_mcpName_description =
     ''MCP'' @
     [CHR 0xE6, CHR 0x9C, CHR 0x8D, CHR 0xE5, CHR 0x8A, CHR 0xA1, CHR 0xE5, CHR 0x99, CHR 0xA8] @
     [CHR 0xE5, CHR 0x90, CHR 0x8D, CHR 0xE7, CHR 0xA7, CHR 0xB0]"

definition call_toolName_description :: string where
  "call_toolName_description =
     [CHR 0xE8, CHR 0xA6, CHR 0x81, CHR 0xE8, CHR 0xB0, CHR 0x83, CHR 0xE7, CHR 0x94, CHR 0xA8] @
     [CHR 0xE7, CHR 0x9A, CHR 0x84, CHR 0xE5, CHR 0xB7, CHR 0xA5, CHR 0xE5, CHR 0x85, CHR 0xB7] @
     [CHR 0xE5, CHR 0x90, CHR 0x8D, CHR 0xE7, CHR 0xA7, CHR 0xB0, CHR 0xEF, CHR 0xBC, CHR 0x88] @
     [CHR 0xE4, CHR 0xBB, CHR 0x8E] @
     ''list_mcp_tools'' @
     [CHR 0xE8, CHR 0xBF, CHR 0x94, CHR 0xE5, CHR 0x9B, CHR 0x9E, CHR 0xE7, CHR 0x9A, CHR 0x84] @
     [CHR 0xE5, CHR 0xB7, CHR 0xA5, CHR 0xE5, CHR 0x85, CHR 0xB7, CHR 0xE5, CHR 0x88, CHR 0x97] @
     [CHR 0xE8, CHR 0xA1, CHR 0xA8, CHR 0xE4, CHR 0xB8, CHR 0xAD, CHR 0xE9, CHR 0x80, CHR 0x89] @
     [CHR 0xE6, CHR 0x8B, CHR 0xA9, CHR 0xEF, CHR 0xBC, CHR 0x89]"

definition call_arguments_description :: string where
  "call_arguments_description =
     [CHR 0xE5, CHR 0xB7, CHR 0xA5, CHR 0xE5, CHR 0x85, CHR 0xB7, CHR 0xE5, CHR 0x8F, CHR 0x82] @
     [CHR 0xE6, CHR 0x95, CHR 0xB0, CHR 0xEF, CHR 0xBC, CHR 0x88, CHR 0xE6, CHR 0xA0, CHR 0xB9] @
     [CHR 0xE6, CHR 0x8D, CHR 0xAE, CHR 0xE5, CHR 0xB7, CHR 0xA5, CHR 0xE5, CHR 0x85, CHR 0xB7] @
     [CHR 0xE7, CHR 0x9A, CHR 0x84] @
     ''inputSchema'' @
     [CHR 0xE6, CHR 0x8F, CHR 0x90, CHR 0xE4, CHR 0xBE, CHR 0x9B, CHR 0xEF, CHR 0xBC, CHR 0x89]"

definition getListMCPToolsDefinition :: tool_definition where
  "getListMCPToolsDefinition =
     \<lparr>def_name = ''list_mcp_tools'',
      def_description = list_mcp_tools_description,
      inputSchema =
        \<lparr>schema_type = ''object'',
         properties =
           [(''mcpName'',
             \<lparr>prop_type = ''string'', prop_description = list_mcpName_description,
              additionalProperties = None\<rparr>)],
         required = [''mcpName'']\<rparr>\<rparr>"

definition getCallMCPToolDefinition :: tool_definition where
  "getCallMCPToolDefinition =
     \<lparr>def_name = ''call_mcp_tool'',
      def_description = call_mcp_tool_description,
      inputSchema =
        \<lparr>schema_type = ''object'',
         properties =
           [(''mcpName'',
             \<lparr>prop_type = ''string'', prop_description = call_mcpName_description,
              additionalProperties = None\<rparr>),
            (''toolName'',
             \<lparr>prop_type = ''string'', prop_description = call_toolName_description,
              additionalProperties = None\<rparr>),
            (''arguments'',
             \<lparr>prop_type = ''object'', prop_description = call_arguments_description,
              additionalProperties = Some True\<rparr>)],
         required = [''mcpName'', ''toolName'']\<rparr>\<rparr>"

text \<open>
  The handler registered for \<^verbatim>\<open>ListToolsRequestSchema\<close> in entry-mcp.server.ts
  ignores its request.
\<close>

definition listToolsHandler :: "jsval \<Rightarrow> tool_definition list" where
  "listToolsHandler request = [getListMCPToolsDefinition, getCallMCPToolDefinition]"

section \<open>HTTP server (MCPHttpServer)\<close>

subsection \<open>JavaScript helpers\<close>

text \<open>Truthiness, as used by \<^verbatim>\<open>!v\<close>, \<^verbatim>\<open>a || b\<close> and \<^verbatim>\<open>a && b\<close>.\<close>

fun truthy :: "jsval \<Rightarrow> bool" where
  "truthy JUndefined = False"
| "truthy JNull = False"
| "truthy (JBool b) = b"
| "truthy (JNum n) = (n \<noteq> 0)"
| "truthy (JStr s) = (s \<noteq> [])"
| "truthy (JArr xs ps) = True"
| "truthy (JObj fs) = True"

text \<open>\<^verbatim>\<open>typeof v === "object"\<close>\<close>

fun typeof_object :: "jsval \<Rightarrow> bool" where
  "typeof_object JNull = True"
| "typeof_object (JArr xs ps) = True"
| "typeof_object (JObj fs) = True"
| "typeof_object v = False"

text \<open>The property key of an array index: its decimal numeral.\<close>

definition dec_digit :: "nat \<Rightarrow> char" where
  "dec_digit d = char_of (48 + d)"

fun index_key :: "nat \<Rightarrow> string" where
  "index_key n = (if n < 10 then [dec_digit n] else index_key (n div 10) @ [dec_digit (n mod 10)])"

text \<open>
  The own enumerable properties that an object spread \<^verbatim>\<open>{...v}\<close> copies: the fields
  of an object, the indexed elements and named properties of an array, the indexed
  characters of a string, and nothing for any other value.
\<close>

fun spread :: "jsval \<Rightarrow> (string \<times> jsval) list" where
  "spread (JObj fs) = fs"
| "spread (JArr xs ps) = zip (map index_key [0..<length xs]) xs @ ps"
| "spread (JStr s) = zip (map index_key [0..<length s]) (map (\<lambda>c. JStr [c]) s)"
| "spread v = []"

text \<open>Reading a property of an object literal; a missing property reads as undefined.\<close>

definition lookup :: "(string \<times> jsval) list \<Rightarrow> string \<Rightarrow> jsval" where
  "lookup fs k = (case map_of fs k of None \<Rightarrow> JUndefined | Some v \<Rightarrow> v)"

text \<open>
  The assignment \<^verbatim>\<open>target[k] = v\<close> for a key that is not an array index, on an object
  or an array.
\<close>

fun set_prop :: "jsval \<Rightarrow> string \<Rightarrow> jsval \<Rightarrow> jsval" where
  "set_prop (JObj fs) k v = JObj (AList.update k v fs)"
| "set_prop (JArr xs ps) k v = JArr xs (AList.update k v ps)"
| "set_prop t k v = t"

text \<open>
  \<^verbatim>\<open>String.prototype.trim\<close> on a header value. Node decodes header bytes as Latin-1,
  where the white space and line terminators of JavaScript are the bytes 09 to 0D, 20
  and A0.
\<close>

definition is_ws :: "char \<Rightarrow> bool" where
  "is_ws c = (c \<in> {CHR 0x09, CHR 0x0A, CHR 0x0B, CHR 0x0C, CHR 0x0D, CHR 0x20, CHR 0xA0})"

definition trim :: "string \<Rightarrow> string" where
  "trim s = rev (dropWhile is_ws (rev (dropWhile is_ws s)))"

text \<open>\<^verbatim>\<open>JSON.stringify\<close> of a string: quoted, with the escapes of ECMA-262.\<close>

definition hex_digit :: "nat \<Rightarrow> char" where
  "hex_digit d = (if d < 10 then char_of (48 + d) else char_of (87 + d))"

definition json_escape :: "char \<Rightarrow> string" where
  "json_escape c =
     (if c = CHR 0x22 then [CHR 0x5C, CHR 0x22]
      else if c = CHR 0x5C then [CHR 0x5C, CHR 0x5C]
      else if c = CHR 0x08 then [CHR 0x5C, CHR ''b'']
      else if c = CHR 0x0C then [CHR 0x5C, CHR ''f'']
      else if c = CHR 0x0A then [CHR 0x5C, CHR ''n'']
      else if c = CHR 0x0D then [CHR 0x5C, CHR ''r'']
      else if c = CHR 0x09 then [CHR 0x5C, CHR ''t'']
      else if (of_char c :: nat) < 32 then
        [CHR 0x5C, CHR ''u'', CHR ''0'', CHR ''0'',
         hex_digit (of_char c div 16), hex_digit (of_char c mod 16)]
      else [c])"

definition json_string :: "string \<Rightarrow> string" where
  "json_string s = [CHR 0x22] @ concat (map json_escape s) @ [CHR 0x22]"

subsection \<open>Requests, collaborators and effects\<close>

datatype http_method = GET | POST | HEAD | OPTIONS | OTHER

text \<open>A header of Node's \<^verbatim>\<open>IncomingMessage\<close> is a string or an array of strings.\<close>

datatype header_value = Single string | Multi "string list"

text \<open>
  An inbound request: the method, the path of the URL, the headers
  \<^verbatim>\<open>authorization\<close>, \<^verbatim>\<open>PROJECT_HEADER\<close> and \<^verbatim>\<open>mcp-session-id\<close>, the query
  parameter \<^verbatim>\<open>sessionId\<close>, and the body as \<^verbatim>\<open>express.json()\<close> finds it:
  \<^verbatim>\<open>json_error\<close> is the status of the error the body parser raises (400 for JSON
  that does not parse, 413 for a body over the limit, 415 for an unsupported charset or
  encoding), or nothing when it parses or skips the body, and then \<^verbatim>\<open>body\<close> is
  \<^verbatim>\<open>req.body\<close>.
\<close>

record request =
  req_method :: http_method
  req_path :: string
  authorization :: "string option"
  project_header :: "header_value option"
  mcp_session_id :: "string option"
  query_sessionId :: "string option"
  json_error :: "nat option"
  body :: jsval

text \<open>What \<^verbatim>\<open>TokenValidator.validateToken\<close> returns.\<close>

record token_validation =
  isValid :: bool
  validation_error :: "string option"

record Project =
  project_id :: string
  project_name :: string

text \<open>
  What a call into a transport handler comes to: it resolves, or it rejects, and then
  the flag tells whether the response headers had been sent by that time.
\<close>

datatype ext_result = Resolved | Rejected bool

text \<open>
  What \<^verbatim>\<open>getAggregatorServer().connect(transport)\<close> comes to: the chunks the
  transport wrote on the response while starting, whether the response headers have been
  sent, and whether the call rejected.
\<close>

record connect_result =
  connect_frames :: "string list"
  connect_headersSent :: bool
  connect_rejected :: bool

text \<open>
  The collaborators of the HTTP server whose code is outside this development, and the
  one constant of the shared package that the resolution reads,
  \<^verbatim>\<open>UNASSIGNED_PROJECT_ID\<close>.
\<close>

record collaborators =
  validateToken :: "string \<Rightarrow> token_validation"
  findByName :: "string \<Rightarrow> Project option"
  UNASSIGNED_PROJECT_ID :: string
  waitForInit :: "exn option"
  entryHandleRequest :: "(string \<times> jsval) list \<Rightarrow> ext_result"
  aggregatorHandleRequest :: "(string \<times> jsval) list \<Rightarrow> ext_result"
  aggregatorConnect :: "string \<Rightarrow> connect_result"
  handlePostMessage :: "string \<Rightarrow> (string \<times> jsval) list \<Rightarrow> ext_result"

text \<open>Every call into a collaborator is recorded, in order.\<close>

datatype effect =
    ValidateToken string
  | FindByName string
  | EntryHandleRequest "(string \<times> jsval) list"
  | AggregatorHandleRequest "(string \<times> jsval) list"
  | AggregatorConnect string
  | TransportClose string
  | HandlePostMessage string "(string \<times> jsval) list"

text \<open>The calls that hand the request to a backend: a transport handler or a connect.\<close>

fun is_backend_call :: "effect \<Rightarrow> bool" where
  "is_backend_call (EntryHandleRequest b) = True"
| "is_backend_call (AggregatorHandleRequest b) = True"
| "is_backend_call (AggregatorConnect s) = True"
| "is_backend_call (HandlePostMessage s b) = True"
| "is_backend_call e = False"

text \<open>
  What the application itself sends: \<^verbatim>\<open>res.status(n).json(v)\<close>,
  \<^verbatim>\<open>res.status(n).send(text)\<close>, the answer of Express's default error handler to
  an error of the body parser, with the status of that error, the empty 204 answer of
  \<^verbatim>\<open>cors()\<close> to an \<^verbatim>\<open>OPTIONS\<close> request, or the default not-found answer of
  Express for an unrouted request.
\<close>

datatype sent =
    SentJson nat jsval
  | SentText nat string
  | ParserError nat
  | Preflight
  | NotRouted

fun status_code :: "sent \<Rightarrow> nat" where
  "status_code (SentJson n v) = n"
| "status_code (SentText n t) = n"
| "status_code (ParserError n) = n"
| "status_code Preflight = 204"
| "status_code NotRouted = 404"

text \<open>
  The outcome of one request: the answer the gateway sent itself, if any; the headers
  set with \<^verbatim>\<open>res.setHeader\<close>; the chunks written on the response as an event
  stream; and the collaborator calls.
\<close>

record outcome =
  sent :: "sent option"
  headers :: "(string \<times> string) list"
  frames :: "string list"
  effects :: "effect list"

definition reply :: "sent \<Rightarrow> effect list \<Rightarrow> outcome" where
  "reply s effs = \<lparr>sent = Some s, headers = [], frames = [], effects = effs\<rparr>"

definition handed_over :: "effect list \<Rightarrow> outcome" where
  "handed_over effs = \<lparr>sent = None, headers = [], frames = [], effects = effs\<rparr>"

definition jsonrpc_error :: "int \<Rightarrow> string \<Rightarrow> jsval \<Rightarrow> jsval" where
  "jsonrpc_error code msg i =
     JObj [(''jsonrpc'', JStr ''2.0''),
           (''error'', JObj [(''code'', JNum code), (''message'', JStr msg)]),
           (''id'', i)]"

definition internal_error :: sent where
  "internal_error = SentJson 500 (jsonrpc_error (- 32603) ''Internal server error'' JNull)"

text \<open>
  The tail of every route handler's outer \<^verbatim>\<open>try\<close>: a rejected transport call is
  answered with the internal-error envelope unless headers were already sent.
\<close>

fun after_call :: "ext_result \<Rightarrow> effect list \<Rightarrow> outcome" where
  "after_call Resolved effs = handed_over effs"
| "after_call (Rejected hs) effs = (if hs then handed_over effs else reply internal_error effs)"

subsection \<open>The authentication middleware\<close>

definition auth_required :: sent where
  "auth_required =
     SentJson 401
       (JObj [(''error'', JStr ''Authentication required. Please provide a valid token.'')])"

definition auth_invalid :: "string option \<Rightarrow> sent" where
  "auth_invalid reason =
     SentJson 401
       (JObj [(''error'',
               JStr (case reason of
                       None \<Rightarrow> ''Invalid token. Authentication failed.''
                     | Some r \<Rightarrow>
                         if r = [] then ''Invalid token. Authentication failed.'' else r))])"

text \<open>
  \<^verbatim>\<open>token.startsWith("Bearer ") ? token.substring(7) : token\<close>
\<close>

definition strip_bearer :: "string \<Rightarrow> string" where
  "strip_bearer token = (if prefix ''Bearer '' token then drop 7 token else token)"

text \<open>
  The middleware first rewrites a \<^verbatim>\<open>Bearer\<close> header to the bare token, then refuses
  a missing or empty header, then asks the validator. The right summand is
  \<^verbatim>\<open>next()\<close>, with the request as rewritten.
\<close>

definition authMiddleware ::
  "collaborators \<Rightarrow> request \<Rightarrow> effect list \<times> (sent + request)" where
  "authMiddleware env req =
     (case authorization req of
        None \<Rightarrow> ([], Inl auth_required)
      | Some token \<Rightarrow>
          if token = [] then ([], Inl auth_required)
          else
            (let req' = (if prefix ''Bearer '' token
                         then req\<lparr>authorization := Some (drop 7 token)\<rparr> else req);
                 tokenId = strip_bearer token;
                 validation = validateToken env tokenId
             in if \<not> isValid validation
                then ([ValidateToken tokenId], Inl (auth_invalid (validation_error validation)))
                else ([ValidateToken tokenId], Inr req')))"

subsection \<open>resolveProjectFilter and attachRequestMetadata\<close>

record resolution =
  projectId :: "string option"
  provided :: bool

text \<open>
  An \<^verbatim>\<open>Error\<close> as the inner \<^verbatim>\<open>catch\<close> of a handler reads it: its message and
  its \<^verbatim>\<open>status\<close>, if it has one.
\<close>

record http_error =
  err_message :: string
  err_status :: "nat option"

definition project_not_found :: "string \<Rightarrow> http_error" where
  "project_not_found v =
     \<lparr>err_message = ''Project '' @ [CHR 0x22] @ v @ [CHR 0x22] @ '' not found'',
      err_status = Some 400\<rparr>"

text \<open>\<^verbatim>\<open>Array.isArray(headerValue) ? headerValue[0] : headerValue\<close>\<close>

fun rawValue :: "header_value \<Rightarrow> string option" where
  "rawValue (Single s) = Some s"
| "rawValue (Multi []) = None"
| "rawValue (Multi (s # ss)) = Some s"

definition resolveProjectFilter ::
  "collaborators \<Rightarrow> request \<Rightarrow> bool \<Rightarrow> (http_error + resolution) \<times> effect list" where
  "resolveProjectFilter env req skipValidation =
     (case project_header req of
        None \<Rightarrow> (Inr \<lparr>projectId = None, provided = False\<rparr>, [])
      | Some headerValue \<Rightarrow>
          (case map_option trim (rawValue headerValue) of
             None \<Rightarrow> (Inr \<lparr>projectId = None, provided = True\<rparr>, [])
           | Some v \<Rightarrow>
               if v = [] then (Inr \<lparr>projectId = None, provided = True\<rparr>, [])
               else if v = UNASSIGNED_PROJECT_ID env then
                 (Inr \<lparr>projectId = None, provided = True\<rparr>, [])
               else if skipValidation then
                 (Inr \<lparr>projectId = Some v, provided = True\<rparr>, [])
               else
                 (case findByName env v of
                    Some byName \<Rightarrow>
                      (Inr \<lparr>projectId = Some (project_id byName), provided = True\<rparr>,
                       [FindByName v])
                  | None \<Rightarrow> (Inl (project_not_found v), [FindByName v]))))"

text \<open>\<^verbatim>\<open>error?.status || 400\<close>\<close>

definition status_of :: "http_error \<Rightarrow> nat" where
  "status_of e = (case err_status e of None \<Rightarrow> 400 | Some n \<Rightarrow> if n = 0 then 400 else n)"

definition token_value :: "string option \<Rightarrow> jsval" where
  "token_value tokenHeader = (case tokenHeader of None \<Rightarrow> JUndefined | Some t \<Rightarrow> JStr t)"

definition project_value :: "string option \<Rightarrow> jsval" where
  "project_value p = (case p of None \<Rightarrow> JNull | Some i \<Rightarrow> JStr i)"

text \<open>
  The payload is the shallow copy of the body. Metadata is merged into an existing
  \<^verbatim>\<open>params\<close> object, created when \<^verbatim>\<open>params\<close> is undefined, and left out when
  \<^verbatim>\<open>params\<close> is any other value.
\<close>

definition attachRequestMetadata ::
  "(string \<times> jsval) list \<Rightarrow> string option \<Rightarrow> string option \<Rightarrow> (string \<times> jsval) list" where
  "attachRequestMetadata payload tokenHeader pid =
     (let params = lookup payload ''params''
      in if truthy params \<and> typeof_object params then
           (let meta = lookup (spread params) ''_meta'';
                old = (if truthy meta then spread meta else [])
            in AList.update ''params''
                 (set_prop params ''_meta''
                    (JObj (AList.update ''projectId'' (project_value pid)
                             (AList.update ''token'' (token_value tokenHeader) old))))
                 payload)
         else if params = JUndefined then
           AList.update ''params''
             (JObj [(''_meta'',
                     JObj [(''token'', token_value tokenHeader),
                           (''projectId'', project_value pid)])])
             payload
         else payload)"

text \<open>\<^verbatim>\<open>modifiedBody.id || null\<close>\<close>

definition id_or_null :: "(string \<times> jsval) list \<Rightarrow> jsval" where
  "id_or_null payload = (if truthy (lookup payload ''id'') then lookup payload ''id'' else JNull)"

definition invalid_project :: "http_error \<Rightarrow> (string \<times> jsval) list \<Rightarrow> sent" where
  "invalid_project e payload =
     SentJson (status_of e) (jsonrpc_error (- 32602) (err_message e) (id_or_null payload))"

subsection \<open>The platform manager\<close>

text \<open>
  \<^verbatim>\<open>getPlatformAPIManager()\<close> returns the singleton of the class
  \<^verbatim>\<open>PlatformAPIManager\<close> (platform-api-manager.ts). The object is seen here through
  the one member the HTTP server calls on it, \<^verbatim>\<open>isRemoteWorkspace\<close>: what the
  method returns, or nothing when the object has no such member. The class defines
  \<^verbatim>\<open>getInstance\<close>, \<^verbatim>\<open>setMainWindow\<close>, \<^verbatim>\<open>setServerManagerProvider\<close>,
  \<^verbatim>\<open>initialize\<close>, \<^verbatim>\<open>configureForWorkspace\<close>, \<^verbatim>\<open>handleWorkspaceSwitch\<close>,
  \<^verbatim>\<open>getCurrentWorkspace\<close>, \<^verbatim>\<open>getCurrentDatabase\<close> and
  \<^verbatim>\<open>switchWorkspace\<close>, and no \<^verbatim>\<open>isRemoteWorkspace\<close>.
\<close>

record PlatformAPIManager =
  isRemoteWorkspace :: "bool option"

definition getPlatformAPIManager :: PlatformAPIManager where
  "getPlatformAPIManager = \<lparr>isRemoteWorkspace = None\<rparr>"

text \<open>
  Calling a member that the object does not have throws a TypeError, an \<^verbatim>\<open>Error\<close>
  without a \<^verbatim>\<open>status\<close>; the message is the one V8 gives.
\<close>

definition not_a_function :: "string \<Rightarrow> http_error" where
  "not_a_function callee =
     \<lparr>err_message = callee @ '' is not a function'', err_status = None\<rparr>"

text \<open>
  The body of the inner \<^verbatim>\<open>try\<close> of the two handlers:
  \<^verbatim>\<open>this.resolveProjectFilter(req, { skipValidation: platformManager.isRemoteWorkspace() })\<close>.
  The argument is evaluated first.
\<close>

definition resolveForWorkspace ::
  "PlatformAPIManager \<Rightarrow> collaborators \<Rightarrow> request
     \<Rightarrow> (http_error + resolution) \<times> effect list" where
  "resolveForWorkspace platformManager env req =
     (case isRemoteWorkspace platformManager of
        None \<Rightarrow> (Inl (not_a_function ''platformManager.isRemoteWorkspace''), [])
      | Some skipValidation \<Rightarrow> resolveProjectFilter env req skipValidation)"

subsection \<open>Route handlers\<close>

text \<open>\<^verbatim>\<open>POST /mcp\<close>: the body is copied and handed to the Entry MCP server's transport.\<close>

definition handleMcp :: "collaborators \<Rightarrow> request \<Rightarrow> outcome" where
  "handleMcp env req =
     (let modifiedBody = spread (body req)
      in case waitForInit env of
           Some e \<Rightarrow> reply internal_error []
         | None \<Rightarrow>
             after_call (entryHandleRequest env modifiedBody) [EntryHandleRequest modifiedBody])"

text \<open>\<^verbatim>\<open>POST /mcp/aggregator\<close>\<close>

definition handleAggregator :: "collaborators \<Rightarrow> request \<Rightarrow> outcome" where
  "handleAggregator env req =
     (let modifiedBody = spread (body req);
          platformManager = getPlatformAPIManager
      in case resolveForWorkspace platformManager env req of
           (Inl e, effs) \<Rightarrow> reply (invalid_project e modifiedBody) effs
         | (Inr r, effs) \<Rightarrow>
             (let payload = attachRequestMetadata modifiedBody (authorization req) (projectId r)
              in after_call (aggregatorHandleRequest env payload)
                   (effs @ [AggregatorHandleRequest payload])))"

text \<open>
  The session table: the two maps \<^verbatim>\<open>sseSessions\<close> and \<^verbatim>\<open>sseSessionProjects\<close>.
  A transport is known by the session identifier it was created with.
\<close>

datatype transport = SSEServerTransport string

record sessions =
  sseSessions :: "string \<rightharpoonup> transport"
  sseSessionProjects :: "string \<rightharpoonup> string option"

definition sse_headers :: "(string \<times> string) list" where
  "sse_headers =
     [(''Content-Type'', ''text/event-stream''),
      (''Cache-Control'', ''no-cache''),
      (''Connection'', ''keep-alive'')]"

text \<open>The chunk \<^verbatim>\<open>data: ${JSON.stringify({ sessionId })}\n\n\<close>.\<close>

definition sessionId_frame :: "string \<Rightarrow> string" where
  "sessionId_frame sessionId =
     ''data: {'' @ json_string ''sessionId'' @ '':'' @ json_string sessionId @ ''}''
     @ [CHR 0x0A, CHR 0x0A]"

text \<open>
  \<^verbatim>\<open>GET /mcp/sse\<close>. The session identifier is the one the new transport generated.
  The session is stored once the project header has resolved, before the connect. The
  platform manager is asked a second time before the connect; an exception there or a
  rejected connect reaches the outer \<^verbatim>\<open>catch\<close>.
\<close>

definition handleSseOpen ::
  "collaborators \<Rightarrow> sessions \<Rightarrow> string \<Rightarrow> request \<Rightarrow> outcome \<times> sessions" where
  "handleSseOpen env st sessionId req =
     (let platformManager = getPlatformAPIManager
      in case resolveForWorkspace platformManager env req of
        (Inl e, effs) \<Rightarrow>
          (\<lparr>sent = Some (SentText (status_of e) (err_message e)),
            headers = sse_headers, frames = [],
            effects = effs @ [TransportClose sessionId]\<rparr>,
           st)
      | (Inr r, effs) \<Rightarrow>
          (let st' = st\<lparr>sseSessions := (sseSessions st)(sessionId \<mapsto> SSEServerTransport sessionId),
                         sseSessionProjects := (sseSessionProjects st)(sessionId \<mapsto> projectId r)\<rparr>
           in case isRemoteWorkspace platformManager of
                None \<Rightarrow>
                  (\<lparr>sent = Some (SentText 500 ''Error establishing SSE connection''),
                    headers = sse_headers, frames = [], effects = effs\<rparr>,
                   st')
              | Some remote \<Rightarrow>
                  (let c = aggregatorConnect env sessionId
                   in if connect_rejected c then
                        (\<lparr>sent = (if connect_headersSent c then None
                                   else Some (SentText 500 ''Error establishing SSE connection'')),
                          headers = sse_headers, frames = connect_frames c,
                          effects = effs @ [AggregatorConnect sessionId]\<rparr>,
                         st')
                      else
                        (\<lparr>sent = None,
                          headers = sse_headers,
                          frames = connect_frames c @ [sessionId_frame sessionId],
                          effects = effs @ [AggregatorConnect sessionId]\<rparr>,
                         st'))))"


text \<open>\<^verbatim>\<open>req.query.sessionId || req.headers["mcp-session-id"]\<close>\<close>

definition requested_session :: "request \<Rightarrow> string option" where
  "requested_session req =
     (case query_sessionId req of
        None \<Rightarrow> mcp_session_id req
      | Some q \<Rightarrow> if q = [] then mcp_session_id req else Some q)"

definition session_required :: sent where
  "session_required = SentJson 400 (jsonrpc_error (- 32000) ''Session ID is required'' JNull)"

definition session_not_found :: sent where
  "session_not_found =
     SentJson 404 (jsonrpc_error (- 32000) ''Session not found or expired'' JNull)"

text \<open>
  \<^verbatim>\<open>POST /mcp/messages\<close>. The project header is resolved without options, so always
  with validation. The handler reads the session table and never writes it.
\<close>

definition handleSseMessage :: "collaborators \<Rightarrow> sessions \<Rightarrow> request \<Rightarrow> outcome" where
  "handleSseMessage env st req =
     (case requested_session req of
        None \<Rightarrow> reply session_required []
      | Some sessionId \<Rightarrow>
          if sessionId = [] then reply session_required []
          else
            (case sseSessions st sessionId of
               None \<Rightarrow> reply session_not_found []
             | Some (SSEServerTransport tid) \<Rightarrow>
                 (let modifiedBody = spread (body req)
                  in case resolveProjectFilter env req False of
                       (Inl e, effs) \<Rightarrow> reply (invalid_project e modifiedBody) effs
                     | (Inr r, effs) \<Rightarrow>
                         (let projectFilter =
                                (if provided r then projectId r
                                 else (case sseSessionProjects st sessionId of
                                         None \<Rightarrow> None
                                       | Some p \<Rightarrow> p));
                              payload = attachRequestMetadata modifiedBody (authorization req)
                                          projectFilter
                          in after_call (handlePostMessage env tid payload)
                               (effs @ [HandlePostMessage tid payload])))))"

subsection \<open>Routing\<close>

text \<open>
  Express matches paths without regard to the case of letters and lets a route end in
  an optional slash. The patterns of this application are lower-case ASCII.
\<close>

definition to_lower :: "char \<Rightarrow> char" where
  "to_lower c =
     (case map_of (zip ''ABCDEFGHIJKLMNOPQRSTUVWXYZ'' ''abcdefghijklmnopqrstuvwxyz'') c of
        None \<Rightarrow> c
      | Some l \<Rightarrow> l)"

text \<open>
  \<^verbatim>\<open>app.use(mount, middleware)\<close> runs the middleware for the mount path and every
  path below it.
\<close>

definition mount_matches :: "string \<Rightarrow> string \<Rightarrow> bool" where
  "mount_matches mount path =
     (prefix mount (map to_lower path)
      \<and> (case drop (length mount) (map to_lower path) of
            [] \<Rightarrow> True
          | c # cs \<Rightarrow> c = CHR ''/''))"

text \<open>\<^verbatim>\<open>app.get(pattern, handler)\<close> and \<^verbatim>\<open>app.post(pattern, handler)\<close>: the path.\<close>

definition route_matches :: "string \<Rightarrow> string \<Rightarrow> bool" where
  "route_matches pattern path =
     (map to_lower path = pattern \<or> map to_lower path = pattern @ ''/'')"

text \<open>
  The method: a handler registered with \<^verbatim>\<open>app.get\<close> also serves \<^verbatim>\<open>HEAD\<close>, as
  the application registers no \<^verbatim>\<open>HEAD\<close> handler.
\<close>

definition handles_method :: "http_method \<Rightarrow> http_method \<Rightarrow> bool" where
  "handles_method registered actual =
     (actual = registered \<or> (registered = GET \<and> actual = HEAD))"

definition on_route :: "http_method \<times> string \<Rightarrow> request \<Rightarrow> bool" where
  "on_route route req =
     (handles_method (fst route) (req_method req) \<and> route_matches (snd route) (req_path req))"

text \<open>
  The authentication middleware is mounted on \<^verbatim>\<open>/mcp\<close> and again on
  \<^verbatim>\<open>/mcp/sse\<close>, in this order.
\<close>

definition use_auth ::
  "string \<Rightarrow> collaborators \<Rightarrow> request \<Rightarrow> effect list \<times> (sent + request)" where
  "use_auth mount env req =
     (if mount_matches mount (req_path req) then authMiddleware env req else ([], Inr req))"

definition with_effects :: "effect list \<Rightarrow> outcome \<Rightarrow> outcome" where
  "with_effects effs out = out\<lparr>effects := effs @ effects out\<rparr>"

text \<open>The four routes: registered method and path pattern.\<close>

definition the_four_routes :: "(http_method \<times> string) list" where
  "the_four_routes =
     [(POST, ''/mcp''),
      (POST, ''/mcp/aggregator''),
      (GET, ''/mcp/sse''),
      (POST, ''/mcp/messages'')]"

definition routes ::
  "collaborators \<Rightarrow> sessions \<Rightarrow> string \<Rightarrow> request \<Rightarrow> outcome \<times> sessions" where
  "routes env st newSessionId req =
     (if on_route (POST, ''/mcp'') req then (handleMcp env req, st)
      else if on_route (POST, ''/mcp/aggregator'') req then (handleAggregator env req, st)
      else if on_route (GET, ''/mcp/sse'') req then handleSseOpen env st newSessionId req
      else if on_route (POST, ''/mcp/messages'') req then (handleSseMessage env st req, st)
      else (reply NotRouted [], st))"

text \<open>
  One request through the application, in the order the middleware is mounted:
  \<^verbatim>\<open>express.json()\<close>, whose error goes to the default error handler;
  \<^verbatim>\<open>cors()\<close>, which ends every \<^verbatim>\<open>OPTIONS\<close> request; the authentication
  middleware on its two mount points; the routes. \<^verbatim>\<open>newSessionId\<close> is the identifier
  that a transport created for this request gets from the SDK.
\<close>

definition dispatch ::
  "collaborators \<Rightarrow> sessions \<Rightarrow> string \<Rightarrow> request \<Rightarrow> outcome \<times> sessions" where
  "dispatch env st newSessionId req =
     (case json_error req of
        Some n \<Rightarrow> (reply (ParserError n) [], st)
      | None \<Rightarrow>
          if req_method req = OPTIONS then (reply Preflight [], st)
          else
            (case use_auth ''/mcp'' env req of
               (effs1, Inl s) \<Rightarrow> (reply s effs1, st)
             | (effs1, Inr req1) \<Rightarrow>
                 (case use_auth ''/mcp/sse'' env req1 of
                    (effs2, Inl s) \<Rightarrow> (reply s (effs1 @ effs2), st)
                  | (effs2, Inr req2) \<Rightarrow>
                      (case routes env st newSessionId req2 of
                         (out, st') \<Rightarrow> (with_effects (effs1 @ effs2) out, st')))))"

text \<open>
  The events that move the session table: a request, or the close of a channel, which
  runs the callback registered for it.
\<close>

datatype event = Request string request | ChannelClosed string



definition no_sessions :: sessions where
  "no_sessions = \<lparr>sseSessions = Map.empty, sseSessionProjects = Map.empty\<rparr>"

section \<open>Sample registry\<close>

text \<open>
  A registry in the style of the unit tests' \<^verbatim>\<open>mockServers\<close>: \<^verbatim>\<open>filesystem\<close> and
  \<^verbatim>\<open>github\<close> running and enabled, \<^verbatim>\<open>database\<close> stopped and disabled,
  \<^verbatim>\<open>search\<close> running but disabled. Only \<^verbatim>\<open>filesystem\<close> answers a tool
  listing; its \<^verbatim>\<open>write_file\<close> tool is switched off in the permissions; every tool
  call is rejected by the backend.
\<close>

definition mockTools :: "string \<Rightarrow> exn + MCPToolInfo list" where
  "mockTools i =
     (if i = ''server-1'' then
        Inr [\<lparr>tool_name = ''read_file'', tool_description = None, tool_inputSchema = None\<rparr>,
             \<lparr>tool_name = ''write_file'', tool_description = None, tool_inputSchema = None\<rparr>]
      else Inl (Exn ''not connected''))"

definition mockServer :: "string \<Rightarrow> string \<Rightarrow> server_status \<Rightarrow> bool \<Rightarrow> MCPServer" where
  "mockServer i n st d =
     \<lparr>server_id = i, server_name = n, server_description = None, status = st,
      disabled = Some d,
      toolPermissions = Some (\<lambda>t. if t = ''write_file'' then Some False else None)\<rparr>"

definition mockDeps :: EntryMCPServiceDeps where
  "mockDeps =
     \<lparr>getServers =
        [mockServer ''server-1'' ''filesystem'' Running False,
         mockServer ''server-2'' ''github'' Running False,
         mockServer ''server-3'' ''database'' Stopped True,
         mockServer ''server-4'' ''search'' Running True],
      getServerTools = mockTools,
      callTool = (\<lambda>s t a. Inl (Exn ''Server not connected: filesystem''))\<rparr>"


definition call_params :: "string \<Rightarrow> string \<Rightarrow> CallMCPToolParams" where
  "call_params s t = \<lparr>mcpName = s, toolName = t, arguments = JObj []\<rparr>"

section \<open>Sample collaborators and requests\<close>

text \<open>
  One valid token, \<^verbatim>\<open>secret\<close>, one project, \<^verbatim>\<open>alpha\<close>, transports that accept
  every call, and a connect that resolves without writing.
\<close>

definition sampleEnv :: collaborators where
  "sampleEnv =
     \<lparr>validateToken =
        (\<lambda>t. if t = ''secret'' then \<lparr>isValid = True, validation_error = None\<rparr>
              else \<lparr>isValid = False, validation_error = Some ''Token not found''\<rparr>),
      findByName =
        (\<lambda>n. if n = ''alpha'' then Some \<lparr>project_id = ''p-1'', project_name = ''alpha''\<rparr>
              else None),
      UNASSIGNED_PROJECT_ID = ''__unassigned__'',
      waitForInit = None,
      entryHandleRequest = (\<lambda>b. Resolved),
      aggregatorHandleRequest = (\<lambda>b. Resolved),
      aggregatorConnect =
        (\<lambda>i. \<lparr>connect_frames = [], connect_headersSent = False, connect_rejected = False\<rparr>),
      handlePostMessage = (\<lambda>i b. Resolved)\<rparr>"

definition sampleBody :: jsval where
  "sampleBody =
     JObj [(''jsonrpc'', JStr ''2.0''), (''id'', JNum 1), (''method'', JStr ''tools/list'')]"

text \<open>
  A request with the given method, path, authorization and project header, whose body
  parses.
\<close>

definition sampleRequest ::
  "http_method \<Rightarrow> string \<Rightarrow> string option \<Rightarrow> header_value option \<Rightarrow> request" where
  "sampleRequest m p a h =
     \<lparr>req_method = m, req_path = p, authorization = a, project_header = h,
      mcp_session_id = None, query_sessionId = None, json_error = None, body = sampleBody\<rparr>"



section \<open>Properties of the Entry MCP service\<close>

subsection \<open>Validation order of callMCPTool\<close>

lemma find_tool_None:
  "find (\<lambda>t. tool_name t = n) ts = None \<longleftrightarrow> n \<notin> tool_name ` set ts"
  by (auto simp: find_None_iff)

lemma validate_server_not_found:
  assumes "find (\<lambda>s. server_name s = mcpName p) (getServers deps) = None"
  shows "validateCallParams deps p =
           (invalid (''MCP server not found: '' @ mcpName p) ''SERVER_NOT_FOUND'', [GetServers])"
  using assms by (simp add: validateCallParams_def)

lemma validate_server_not_running:
  assumes "find (\<lambda>s. server_name s = mcpName p) (getServers deps) = Some s"
    and "status s \<noteq> Running"
  shows "validateCallParams deps p =
           (invalid (''MCP server is not running: '' @ mcpName p) ''SERVER_NOT_RUNNING'',
            [GetServers])"
  using assms by (simp add: validateCallParams_def)

lemma validate_server_disabled:
  assumes "find (\<lambda>s. server_name s = mcpName p) (getServers deps) = Some s"
    and "status s = Running" and "disabled s = Some True"
  shows "validateCallParams deps p =
           (invalid (''MCP server is disabled: '' @ mcpName p) ''SERVER_DISABLED'',
            [GetServers])"
  using assms by (simp add: validateCallParams_def)

lemma validate_tools_fetch_failed:
  assumes "find (\<lambda>s. server_name s = mcpName p) (getServers deps) = Some s"
    and "status s = Running" and "disabled s \<noteq> Some True"
    and "getServerTools deps (server_id s) = Inl e"
  shows "validateCallParams deps p =
           (invalid (''Failed to get tools from server: '' @ mcpName p) ''TOOLS_FETCH_FAILED'',
            [GetServers, GetServerTools (server_id s)])"
  using assms by (simp add: validateCallParams_def)

lemma validate_tool_not_found:
  assumes "find (\<lambda>s. server_name s = mcpName p) (getServers deps) = Some s"
    and "status s = Running" and "disabled s \<noteq> Some True"
    and "getServerTools deps (server_id s) = Inr ts"
    and "toolName p \<notin> tool_name ` set ts"
  shows "validateCallParams deps p =
           (invalid (''Tool not found: '' @ toolName p @ '' on server '' @ mcpName p)
              ''TOOL_NOT_FOUND'',
            [GetServers, GetServerTools (server_id s)])"
proof -
  have "find (\<lambda>t. tool_name t = toolName p) ts = None"
    using assms(5) by (simp add: find_tool_None)
  with assms(1-4) show ?thesis by (simp add: validateCallParams_def)
qed

lemma validate_tool_disabled:
  assumes "find (\<lambda>s. server_name s = mcpName p) (getServers deps) = Some s"
    and "status s = Running" and "disabled s \<noteq> Some True"
    and "getServerTools deps (server_id s) = Inr ts"
    and "toolName p \<in> tool_name ` set ts"
    and "tool_explicitly_disabled s (toolName p)"
  shows "validateCallParams deps p =
           (invalid (''Tool is disabled: '' @ toolName p) ''TOOL_DISABLED'',
            [GetServers, GetServerTools (server_id s)])"
proof -
  obtain t where "find (\<lambda>t. tool_name t = toolName p) ts = Some t"
    using assms(5) by (cases "find (\<lambda>t. tool_name t = toolName p) ts")
                      (simp_all add: find_tool_None)
  with assms(1-4,6) show ?thesis by (simp add: validateCallParams_def)
qed

lemma validate_passes:
  assumes "find (\<lambda>s. server_name s = mcpName p) (getServers deps) = Some s"
    and "status s = Running" and "disabled s \<noteq> Some True"
    and "getServerTools deps (server_id s) = Inr ts"
    and "toolName p \<in> tool_name ` set ts"
    and "\<not> tool_explicitly_disabled s (toolName p)"
  shows "validateCallParams deps p =
           (\<lparr>valid = True, error = None, v_errorCode = None, serverId = Some (server_id s)\<rparr>,
            [GetServers, GetServerTools (server_id s)])"
proof -
  obtain t where "find (\<lambda>t. tool_name t = toolName p) ts = Some t"
    using assms(5) by (cases "find (\<lambda>t. tool_name t = toolName p) ts")
                      (simp_all add: find_tool_None)
  with assms(1-4,6) show ?thesis by (simp add: validateCallParams_def)
qed

lemma validate_fetches_tools:
  assumes "find (\<lambda>s. server_name s = mcpName p) (getServers deps) = Some s"
    and "status s = Running" and "disabled s \<noteq> Some True"
  shows "snd (validateCallParams deps p) = [GetServers, GetServerTools (server_id s)]"
  using assms by (simp add: validateCallParams_def split: sum.splits option.splits)

lemma validate_makes_no_call:
  "\<not> list_ex is_CallTool (snd (validateCallParams deps p))"
  by (simp add: validateCallParams_def split: option.splits sum.splits)

lemma validate_invalid_has_code:
  "\<not> valid (fst (validateCallParams deps p)) \<Longrightarrow>
     v_errorCode (fst (validateCallParams deps p)) \<noteq> None"
  by (auto simp: validateCallParams_def invalid_def split: option.splits sum.splits)

lemma callMCPTool_rejected:
  assumes "\<not> valid (fst (validateCallParams deps p))"
  shows "callMCPTool deps p =
           (Inr \<lparr>content = [text_item (error (fst (validateCallParams deps p)))],
                 isError = True,
                 errorCode = v_errorCode (fst (validateCallParams deps p))\<rparr>,
            snd (validateCallParams deps p))"
  using assms by (cases "validateCallParams deps p") (simp add: callMCPTool_def)

lemma callMCPTool_code_of_invalid:
  assumes "validateCallParams deps p = (invalid m c, calls)"
  shows "\<exists>r. fst (callMCPTool deps p) = Inr r \<and> errorCode r = Some c"
  using assms by (simp add: callMCPTool_def invalid_def)

text \<open>
  Claim C1. \<^verbatim>\<open>callMCPTool\<close> validates in a fixed order and stops at the first check
  that fails, each with its own error code: the server is looked up by name
  (\<^verbatim>\<open>SERVER_NOT_FOUND\<close>), must be running (\<^verbatim>\<open>SERVER_NOT_RUNNING\<close>), must not be
  disabled (\<^verbatim>\<open>SERVER_DISABLED\<close>), its tool list is fetched (\<^verbatim>\<open>TOOLS_FETCH_FAILED\<close>
  when the fetch rejects; the list is fetched on every call that gets this far) and must
  contain the tool (\<^verbatim>\<open>TOOL_NOT_FOUND\<close>), and the permission map must not set
  the tool to false (\<^verbatim>\<open>TOOL_DISABLED\<close>). In each of these cases the method returns a
  result carrying the code. Whenever validation fails the method returns a result that
  is flagged as an error and carries a code, and the registry's \<^verbatim>\<open>callTool\<close>
  primitive is not among the calls made.
\<close>

theorem callMCPTool_validation_order:
  "(find (\<lambda>s. server_name s = mcpName p) (getServers deps) = None \<longrightarrow>
      (\<exists>r. fst (callMCPTool deps p) = Inr r \<and> errorCode r = Some ''SERVER_NOT_FOUND''))
   \<and> (\<forall>s. find (\<lambda>s. server_name s = mcpName p) (getServers deps) = Some s \<longrightarrow>
        (status s \<noteq> Running \<longrightarrow>
           (\<exists>r. fst (callMCPTool deps p) = Inr r \<and> errorCode r = Some ''SERVER_NOT_RUNNING''))
      \<and> (status s = Running \<and> disabled s = Some True \<longrightarrow>
           (\<exists>r. fst (callMCPTool deps p) = Inr r \<and> errorCode r = Some ''SERVER_DISABLED''))
      \<and> (status s = Running \<and> disabled s \<noteq> Some True \<longrightarrow>
           snd (validateCallParams deps p) = [GetServers, GetServerTools (server_id s)]
         \<and> (\<forall>e. getServerTools deps (server_id s) = Inl e \<longrightarrow>
              (\<exists>r. fst (callMCPTool deps p) = Inr r
                   \<and> errorCode r = Some ''TOOLS_FETCH_FAILED''))
         \<and> (\<forall>ts. getServerTools deps (server_id s) = Inr ts \<longrightarrow>
              (toolName p \<notin> tool_name ` set ts \<longrightarrow>
                 (\<exists>r. fst (callMCPTool deps p) = Inr r
                      \<and> errorCode r = Some ''TOOL_NOT_FOUND''))
            \<and> (toolName p \<in> tool_name ` set ts \<and> tool_explicitly_disabled s (toolName p) \<longrightarrow>
                 (\<exists>r. fst (callMCPTool deps p) = Inr r
                      \<and> errorCode r = Some ''TOOL_DISABLED''))
            \<and> (toolName p \<in> tool_name ` set ts \<and> \<not> tool_explicitly_disabled s (toolName p) \<longrightarrow>
                 valid (fst (validateCallParams deps p))))))
   \<and> (\<not> valid (fst (validateCallParams deps p)) \<longrightarrow>
        (\<exists>r. fst (callMCPTool deps p) = Inr r \<and> isError r \<and> errorCode r \<noteq> None)
      \<and> \<not> list_ex is_CallTool (snd (callMCPTool deps p)))"
proof (intro conjI allI impI)
  assume "\<not> valid (fst (validateCallParams deps p))"
  then show "\<exists>r. fst (callMCPTool deps p) = Inr r \<and> isError r \<and> errorCode r \<noteq> None"
    and "\<not> list_ex is_CallTool (snd (callMCPTool deps p))"
    using validate_makes_no_call [of deps p] validate_invalid_has_code [of deps p]
    by (simp_all add: callMCPTool_rejected)
qed (auto dest: validate_server_not_found validate_server_not_running validate_server_disabled
          validate_tools_fetch_failed validate_tool_not_found validate_tool_disabled
          validate_passes callMCPTool_code_of_invalid validate_fetches_tools)

theorem callMCPTool_validation_order_witness:
  "find (\<lambda>s. server_name s = ''nonexistent'') (getServers mockDeps) = None
   \<and> map_sum id errorCode (fst (callMCPTool mockDeps (call_params ''nonexistent'' ''read_file'')))
       = Inr (Some ''SERVER_NOT_FOUND'')
   \<and> map_sum id errorCode (fst (callMCPTool mockDeps (call_params ''database'' ''query'')))
       = Inr (Some ''SERVER_NOT_RUNNING'')
   \<and> map_sum id errorCode (fst (callMCPTool mockDeps (call_params ''search'' ''find'')))
       = Inr (Some ''SERVER_DISABLED'')
   \<and> map_sum id errorCode (fst (callMCPTool mockDeps (call_params ''github'' ''create_pr'')))
       = Inr (Some ''TOOLS_FETCH_FAILED'')
   \<and> map_sum id errorCode (fst (callMCPTool mockDeps (call_params ''filesystem'' ''delete_file'')))
       = Inr (Some ''TOOL_NOT_FOUND'')
   \<and> map_sum id errorCode (fst (callMCPTool mockDeps (call_params ''filesystem'' ''write_file'')))
       = Inr (Some ''TOOL_DISABLED'')
   \<and> valid (fst (validateCallParams mockDeps (call_params ''filesystem'' ''read_file'')))
   \<and> \<not> valid (fst (validateCallParams mockDeps (call_params ''filesystem'' ''write_file'')))
   \<and> map_sum id isError (fst (callMCPTool mockDeps (call_params ''filesystem'' ''write_file'')))
       = Inr True
   \<and> \<not> list_ex is_CallTool (snd (callMCPTool mockDeps (call_params ''filesystem'' ''write_file'')))"
  using callMCPTool_validation_order [of "call_params ''nonexistent'' ''read_file''" mockDeps]
    callMCPTool_validation_order [of "call_params ''database'' ''query''" mockDeps]
    callMCPTool_validation_order [of "call_params ''search'' ''find''" mockDeps]
    callMCPTool_validation_order [of "call_params ''github'' ''create_pr''" mockDeps]
    callMCPTool_validation_order [of "call_params ''filesystem'' ''delete_file''" mockDeps]
    callMCPTool_validation_order [of "call_params ''filesystem'' ''write_file''" mockDeps]
    callMCPTool_validation_order [of "call_params ''filesystem'' ''read_file''" mockDeps]
  by (auto simp: mockDeps_def mockServer_def mockTools_def call_params_def
        tool_explicitly_disabled_def validateCallParams_def invalid_def)

subsection \<open>A rejecting backend call\<close>




subsection \<open>Empty results of listMCPTools\<close>

lemma sublist_between: "sublist n (a @ n @ b)"
  by (rule sublist_appendI)

lemma guidance_message_nonempty: "guidance_message \<noteq> []"
  by (simp add: guidance_message_def)

text \<open>
  The message for a server that is not found quotes the server name only. With the sample
  registry, asking for the unknown server \<^verbatim>\<open>ghost\<close> under the partition
  \<^verbatim>\<open>proj-1\<close> yields a message in which \<^verbatim>\<open>proj-1\<close> does not occur.
\<close>

theorem listMCPTools_not_found_message_omits_partition:
  "message (fst (listMCPTools mockDeps
                   \<lparr>list_mcpName = Some ''ghost'', list_projectId = Some ''proj-1''\<rparr>))
     = Some (not_found_prefix @ ''ghost'' @ not_found_suffix)
   \<and> \<not> sublist ''proj-1'' (not_found_prefix @ ''ghost'' @ not_found_suffix)"
  by (simp add: listMCPTools_def mockDeps_def mockServer_def not_found_prefix_def
        not_found_suffix_def sublist_Cons_right prefix_Cons)

text \<open>
  Claim C6, as the service behaves. Every empty-result branch of \<^verbatim>\<open>listMCPTools\<close>
  returns an empty server list with a non-empty message, as an ordinary result. Without a
  server name (missing or empty) the message is the fixed guidance text, whatever the
  registry holds; the registry is not consulted. When no server of that name is running
  and enabled, the message quotes the server name. When fetching the tool list of the
  matching server rejects, the message quotes the server name. The partition parameter is
  never read, so no message depends on it.
\<close>

theorem listMCPTools_empty_results:
  "((list_mcpName p = None \<or> list_mcpName p = Some []) \<longrightarrow>
      listMCPTools deps p = (\<lparr>servers = [], message = Some guidance_message\<rparr>, [])
      \<and> guidance_message \<noteq> [])
   \<and> (\<forall>n. list_mcpName p = Some n \<and> n \<noteq> [] \<longrightarrow>
        (find (\<lambda>s. server_name s = n \<and> status s = Running \<and> disabled s \<noteq> Some True)
              (getServers deps) = None \<longrightarrow>
           fst (listMCPTools deps p) =
             \<lparr>servers = [], message = Some (not_found_prefix @ n @ not_found_suffix)\<rparr>
           \<and> not_found_prefix @ n @ not_found_suffix \<noteq> []
           \<and> sublist n (not_found_prefix @ n @ not_found_suffix))
      \<and> (\<forall>s e. find (\<lambda>s. server_name s = n \<and> status s = Running \<and> disabled s \<noteq> Some True)
                    (getServers deps) = Some s
                \<and> getServerTools deps (server_id s) = Inl e \<longrightarrow>
           fst (listMCPTools deps p) =
             \<lparr>servers = [], message = Some (fetch_failed_prefix @ n @ fetch_failed_suffix)\<rparr>
           \<and> fetch_failed_prefix @ n @ fetch_failed_suffix \<noteq> []
           \<and> sublist n (fetch_failed_prefix @ n @ fetch_failed_suffix)))
   \<and> listMCPTools deps (p\<lparr>list_projectId := q\<rparr>) = listMCPTools deps p"
  by (auto simp: listMCPTools_def guidance_message_nonempty sublist_between)

theorem listMCPTools_empty_results_witness:
  "listMCPTools mockDeps \<lparr>list_mcpName = None, list_projectId = None\<rparr>
     = (\<lparr>servers = [], message = Some guidance_message\<rparr>, [])
   \<and> listMCPTools mockDeps \<lparr>list_mcpName = Some [], list_projectId = None\<rparr>
     = (\<lparr>servers = [], message = Some guidance_message\<rparr>, [])
   \<and> find (\<lambda>s. server_name s = ''database'' \<and> status s = Running \<and> disabled s \<noteq> Some True)
        (getServers mockDeps) = None
   \<and> fst (listMCPTools mockDeps \<lparr>list_mcpName = Some ''database'', list_projectId = None\<rparr>)
     = \<lparr>servers = [], message = Some (not_found_prefix @ ''database'' @ not_found_suffix)\<rparr>
   \<and> getServerTools mockDeps ''server-2'' = Inl (Exn ''not connected'')
   \<and> fst (listMCPTools mockDeps \<lparr>list_mcpName = Some ''github'', list_projectId = None\<rparr>)
     = \<lparr>servers = [], message = Some (fetch_failed_prefix @ ''github'' @ fetch_failed_suffix)\<rparr>"
  using
    listMCPTools_empty_results [of "\<lparr>list_mcpName = None, list_projectId = None\<rparr>" mockDeps]
    listMCPTools_empty_results [of "\<lparr>list_mcpName = Some [], list_projectId = None\<rparr>" mockDeps]
    listMCPTools_empty_results
      [of "\<lparr>list_mcpName = Some ''database'', list_projectId = None\<rparr>" mockDeps]
    listMCPTools_empty_results
      [of "\<lparr>list_mcpName = Some ''github'', list_projectId = None\<rparr>" mockDeps]
  by (simp add: mockDeps_def mockServer_def mockTools_def)

subsection \<open>The tool-listing handler\<close>

text \<open>
  Claim C7. The tool-listing handler answers every request with the two fixed
  definitions, \<^verbatim>\<open>list_mcp_tools\<close> and \<^verbatim>\<open>call_mcp_tool\<close>, in this order.
  \<^verbatim>\<open>list_mcp_tools\<close> has the single, required property \<^verbatim>\<open>mcpName\<close>.
  \<^verbatim>\<open>call_mcp_tool\<close> requires \<^verbatim>\<open>mcpName\<close> and \<^verbatim>\<open>toolName\<close> and declares
  \<^verbatim>\<open>arguments\<close>; its schema declares no \<^verbatim>\<open>timeoutSec\<close> property.
\<close>

theorem listTools_call_schema_lacks_timeoutSec:
  "listToolsHandler request = [getListMCPToolsDefinition, getCallMCPToolDefinition]
   \<and> map def_name (listToolsHandler request) = [''list_mcp_tools'', ''call_mcp_tool'']
   \<and> map fst (properties (inputSchema getListMCPToolsDefinition)) = [''mcpName'']
   \<and> required (inputSchema getListMCPToolsDefinition) = [''mcpName'']
   \<and> map (\<lambda>(k, pr). (k, prop_type pr)) (properties (inputSchema getCallMCPToolDefinition))
       = [(''mcpName'', ''string''), (''toolName'', ''string''), (''arguments'', ''object'')]
   \<and> required (inputSchema getCallMCPToolDefinition) = [''mcpName'', ''toolName'']
   \<and> ''timeoutSec'' \<notin> fst ` set (properties (inputSchema getCallMCPToolDefinition))"
  by (simp add: listToolsHandler_def getListMCPToolsDefinition_def getCallMCPToolDefinition_def)

section \<open>Properties of the HTTP server\<close>

subsection \<open>The authentication gate\<close>

lemma strip_bearer_prefixed: "strip_bearer (''Bearer '' @ tokenId) = tokenId"
  by (simp add: strip_bearer_def)

lemma strip_bearer_plain: "\<not> prefix ''Bearer '' t \<Longrightarrow> strip_bearer t = t"
  by (simp add: strip_bearer_def)

lemma four_routes_mounted:
  assumes "list_ex (\<lambda>route. on_route route req) the_four_routes"
  shows "mount_matches ''/mcp'' (req_path req) \<and> req_method req \<noteq> OPTIONS"
  using assms
  by (auto simp: the_four_routes_def on_route_def route_matches_def mount_matches_def
        handles_method_def)

lemma authMiddleware_no_token:
  assumes "authorization req = None \<or> authorization req = Some []"
  shows "authMiddleware env req = ([], Inl auth_required)"
  using assms by (auto simp: authMiddleware_def)

lemma authMiddleware_rejected:
  assumes "authorization req = Some t" and "t \<noteq> []"
    and "\<not> isValid (validateToken env (strip_bearer t))"
  shows "authMiddleware env req =
           ([ValidateToken (strip_bearer t)],
            Inl (auth_invalid (validation_error (validateToken env (strip_bearer t)))))"
  using assms by (simp add: authMiddleware_def Let_def)

lemma dispatch_no_token:
  assumes "list_ex (\<lambda>route. on_route route req) the_four_routes" and "json_error req = None"
    and "authorization req = None \<or> authorization req = Some []"
  shows "dispatch env st newSessionId req = (reply auth_required [], st)"
  using four_routes_mounted [OF assms(1)] assms(2,3)
  by (simp add: dispatch_def use_auth_def authMiddleware_no_token)

lemma dispatch_rejected_token:
  assumes "list_ex (\<lambda>route. on_route route req) the_four_routes" and "json_error req = None"
    and "authorization req = Some t" and "t \<noteq> []"
    and "\<not> isValid (validateToken env (strip_bearer t))"
  shows "dispatch env st newSessionId req =
           (reply (auth_invalid (validation_error (validateToken env (strip_bearer t))))
              [ValidateToken (strip_bearer t)], st)"
  using four_routes_mounted [OF assms(1)] assms(2-5)
  by (simp add: dispatch_def use_auth_def authMiddleware_rejected)

text \<open>
  The body parser runs before the authentication middleware: a request to the facade
  route without a token whose body does not parse is answered with the parser's status
  400, not with 401.
\<close>

theorem unparsable_body_answered_before_auth:
  "on_route (POST, ''/mcp'') ((sampleRequest POST ''/mcp'' None None)\<lparr>json_error := Some 400\<rparr>)
   \<and> authorization ((sampleRequest POST ''/mcp'' None None)\<lparr>json_error := Some 400\<rparr>) = None
   \<and> dispatch sampleEnv no_sessions ''s1''
        ((sampleRequest POST ''/mcp'' None None)\<lparr>json_error := Some 400\<rparr>)
      = (\<lparr>sent = Some (ParserError 400), headers = [], frames = [], effects = []\<rparr>,
         no_sessions)
   \<and> status_code (ParserError 400) \<noteq> 401"
  by (simp add: dispatch_def reply_def sampleRequest_def on_route_def route_matches_def
        handles_method_def to_lower_def)

text \<open>
  Claim C3, as the application behaves. Take a request that one of the four routes
  serves, in any spelling of the path that Express accepts, and whose body the body
  parser accepts. Without an authorization token (no header, or an empty one) it is
  answered with status 401 and the fixed message by the authentication middleware and
  goes no further: no collaborator is called and the session table is unchanged. With a
  token that the validator rejects it is answered with status 401 likewise, carrying
  the validator's reason when it gives one and the fixed message otherwise; the only
  call made is the one to the validator, with the token stripped of its
  \<^verbatim>\<open>Bearer\<close> prefix.
\<close>

theorem unauthenticated_request_rejected:
  assumes "list_ex (\<lambda>route. on_route route req) the_four_routes"
    and "json_error req = None"
  shows "((authorization req = None \<or> authorization req = Some []) \<longrightarrow>
            dispatch env st newSessionId req =
              (\<lparr>sent = Some (SentJson 401
                         (JObj [(''error'',
                                 JStr ''Authentication required. Please provide a valid token.'')])),
                headers = [], frames = [], effects = []\<rparr>, st))
       \<and> (\<forall>t tokenId.
             authorization req = Some t \<and> t \<noteq> []
             \<and> (t = ''Bearer '' @ tokenId \<or> (\<not> prefix ''Bearer '' t \<and> tokenId = t))
             \<and> \<not> isValid (validateToken env tokenId) \<longrightarrow>
               (\<forall>r. validation_error (validateToken env tokenId) = Some r \<and> r \<noteq> [] \<longrightarrow>
                  dispatch env st newSessionId req =
                    (\<lparr>sent = Some (SentJson 401 (JObj [(''error'', JStr r)])),
                      headers = [], frames = [], effects = [ValidateToken tokenId]\<rparr>, st))
             \<and> (validation_error (validateToken env tokenId) = None
                 \<or> validation_error (validateToken env tokenId) = Some [] \<longrightarrow>
                  dispatch env st newSessionId req =
                    (\<lparr>sent = Some (SentJson 401
                               (JObj [(''error'',
                                       JStr ''Invalid token. Authentication failed.'')])),
                      headers = [], frames = [], effects = [ValidateToken tokenId]\<rparr>, st))
             \<and> (\<exists>body. sent (fst (dispatch env st newSessionId req)) = Some (SentJson 401 body))
             \<and> \<not> list_ex is_backend_call (effects (fst (dispatch env st newSessionId req)))
             \<and> snd (dispatch env st newSessionId req) = st)"
proof (intro conjI allI impI)
  assume "authorization req = None \<or> authorization req = Some []"
  then show "dispatch env st newSessionId req =
              (\<lparr>sent = Some (SentJson 401
                         (JObj [(''error'',
                                 JStr ''Authentication required. Please provide a valid token.'')])),
                headers = [], frames = [], effects = []\<rparr>, st)"
    using dispatch_no_token [OF assms] by (simp add: reply_def auth_required_def)
next
  fix t tokenId
  assume a: "authorization req = Some t \<and> t \<noteq> []
             \<and> (t = ''Bearer '' @ tokenId \<or> (\<not> prefix ''Bearer '' t \<and> tokenId = t))
             \<and> \<not> isValid (validateToken env tokenId)"
  then have s: "strip_bearer t = tokenId"
    by (metis strip_bearer_prefixed strip_bearer_plain)
  have d: "dispatch env st newSessionId req =
             (reply (auth_invalid (validation_error (validateToken env tokenId)))
                [ValidateToken tokenId], st)"
    using dispatch_rejected_token [OF assms, of t env st newSessionId] a s by simp
  show "\<exists>body. sent (fst (dispatch env st newSessionId req)) = Some (SentJson 401 body)"
    using d by (simp add: reply_def auth_invalid_def)
  show "\<not> list_ex is_backend_call (effects (fst (dispatch env st newSessionId req)))"
    using d by (simp add: reply_def)
  show "snd (dispatch env st newSessionId req) = st" using d by simp
  {
    fix r
    assume "validation_error (validateToken env tokenId) = Some r \<and> r \<noteq> []"
    then show "dispatch env st newSessionId req =
                    (\<lparr>sent = Some (SentJson 401 (JObj [(''error'', JStr r)])),
                      headers = [], frames = [], effects = [ValidateToken tokenId]\<rparr>, st)"
      using d by (simp add: reply_def auth_invalid_def)
  }
  {
    assume "validation_error (validateToken env tokenId) = None
                 \<or> validation_error (validateToken env tokenId) = Some []"
    then show "dispatch env st newSessionId req =
                    (\<lparr>sent = Some (SentJson 401
                               (JObj [(''error'',
                                       JStr ''Invalid token. Authentication failed.'')])),
                      headers = [], frames = [], effects = [ValidateToken tokenId]\<rparr>, st)"
      using d by (auto simp: reply_def auth_invalid_def)
  }
qed

theorem unauthenticated_request_rejected_witness:
  "list_ex (\<lambda>route. on_route route (sampleRequest HEAD ''/MCP/sse/'' None None)) the_four_routes
   \<and> json_error (sampleRequest HEAD ''/MCP/sse/'' None None) = None
   \<and> dispatch sampleEnv no_sessions ''s1'' (sampleRequest HEAD ''/MCP/sse/'' None None)
       = (\<lparr>sent = Some (SentJson 401
                  (JObj [(''error'',
                          JStr ''Authentication required. Please provide a valid token.'')])),
           headers = [], frames = [], effects = []\<rparr>, no_sessions)
   \<and> list_ex (\<lambda>route. on_route route (sampleRequest POST ''/mcp'' (Some ''Bearer wrong'') None))
        the_four_routes
   \<and> \<not> isValid (validateToken sampleEnv ''wrong'')
   \<and> validation_error (validateToken sampleEnv ''wrong'') = Some ''Token not found''
   \<and> dispatch sampleEnv no_sessions ''s1''
         (sampleRequest POST ''/mcp'' (Some ''Bearer wrong'') None)
       = (\<lparr>sent = Some (SentJson 401 (JObj [(''error'', JStr ''Token not found'')])),
           headers = [], frames = [], effects = [ValidateToken ''wrong'']\<rparr>, no_sessions)"
proof -
  let ?r1 = "sampleRequest HEAD ''/MCP/sse/'' None None"
  let ?r2 = "sampleRequest POST ''/mcp'' (Some ''Bearer wrong'') None"
  have m1: "list_ex (\<lambda>route. on_route route ?r1) the_four_routes"
    by (simp add: the_four_routes_def on_route_def route_matches_def handles_method_def
          sampleRequest_def to_lower_def)
  have j1: "json_error ?r1 = None" by (simp add: sampleRequest_def)
  have m2: "list_ex (\<lambda>route. on_route route ?r2) the_four_routes"
    by (simp add: the_four_routes_def on_route_def route_matches_def handles_method_def
          sampleRequest_def to_lower_def)
  have j2: "json_error ?r2 = None" by (simp add: sampleRequest_def)
  have v: "\<not> isValid (validateToken sampleEnv ''wrong'')
           \<and> validation_error (validateToken sampleEnv ''wrong'') = Some ''Token not found''"
    by (simp add: sampleEnv_def)
  have a1: "authorization ?r1 = None" by (simp add: sampleRequest_def)
  have a2: "authorization ?r2 = Some ''Bearer wrong''" by (simp add: sampleRequest_def)
  from unauthenticated_request_rejected [OF m1 j1, of sampleEnv no_sessions "''s1''"] a1
  have c1: "dispatch sampleEnv no_sessions ''s1'' ?r1
       = (\<lparr>sent = Some (SentJson 401
                  (JObj [(''error'',
                          JStr ''Authentication required. Please provide a valid token.'')])),
           headers = [], frames = [], effects = []\<rparr>, no_sessions)"
    by simp
  from unauthenticated_request_rejected [OF m2 j2, of sampleEnv no_sessions "''s1''"]
  have "authorization ?r2 = Some ''Bearer wrong'' \<and> ''Bearer wrong'' \<noteq> []
             \<and> (''Bearer wrong'' = ''Bearer '' @ ''wrong''
                 \<or> (\<not> prefix ''Bearer '' ''Bearer wrong'' \<and> ''wrong'' = ''Bearer wrong''))
             \<and> \<not> isValid (validateToken sampleEnv ''wrong'') \<longrightarrow>
               (\<forall>r. validation_error (validateToken sampleEnv ''wrong'') = Some r \<and> r \<noteq> [] \<longrightarrow>
                  dispatch sampleEnv no_sessions ''s1'' ?r2 =
                    (\<lparr>sent = Some (SentJson 401 (JObj [(''error'', JStr r)])),
                      headers = [], frames = [], effects = [ValidateToken ''wrong'']\<rparr>,
                     no_sessions))"
    by blast
  with a2 v have c2: "dispatch sampleEnv no_sessions ''s1'' ?r2
       = (\<lparr>sent = Some (SentJson 401 (JObj [(''error'', JStr ''Token not found'')])),
           headers = [], frames = [], effects = [ValidateToken ''wrong'']\<rparr>, no_sessions)"
    by simp
  show ?thesis using m1 j1 c1 m2 v c2 by simp
qed

subsection \<open>The call into the platform manager\<close>

lemma resolveForWorkspace_throws:
  "resolveForWorkspace getPlatformAPIManager env req =
     (Inl \<lparr>err_message = ''platformManager.isRemoteWorkspace is not a function'',
           err_status = None\<rparr>, [])"
  by (simp add: resolveForWorkspace_def getPlatformAPIManager_def not_a_function_def)

lemma handleAggregator_throws:
  "handleAggregator env req =
     \<lparr>sent = Some (SentJson 400
               (JObj [(''jsonrpc'', JStr ''2.0''),
                      (''error'',
                       JObj [(''code'', JNum (- 32602)),
                             (''message'',
                              JStr ''platformManager.isRemoteWorkspace is not a function'')]),
                      (''id'', id_or_null (spread (body req)))])),
      headers = [], frames = [], effects = []\<rparr>"
  by (simp add: handleAggregator_def resolveForWorkspace_throws Let_def invalid_project_def
        status_of_def jsonrpc_error_def reply_def)

lemma handleSseOpen_throws:
  "handleSseOpen env st sessionId req =
     (\<lparr>sent = Some (SentText 400 ''platformManager.isRemoteWorkspace is not a function''),
       headers = [(''Content-Type'', ''text/event-stream''),
                  (''Cache-Control'', ''no-cache''),
                  (''Connection'', ''keep-alive'')],
       frames = [],
       effects = [TransportClose sessionId]\<rparr>, st)"
  by (simp add: handleSseOpen_def resolveForWorkspace_throws Let_def status_of_def
        sse_headers_def)

text \<open>
  Claim C8. The full-surface and the stream-open handler ask the platform manager
  whether the workspace is remote before they resolve the project header. The platform
  manager has no such method, so the call throws inside the inner \<^verbatim>\<open>try\<close>: every
  request on these two routes is answered with status 400 and the message of the
  TypeError, without the project repository being consulted and without anything being
  forwarded or connected. With a valid token and the unknown project \<^verbatim>\<open>beta\<close>, the
  answer of the full-surface route carries that message and not the message of the
  resolution; with the known project \<^verbatim>\<open>alpha\<close> the answer is the same.
\<close>

theorem project_header_never_resolved:
  "handleAggregator env req =
     \<lparr>sent = Some (SentJson 400
               (JObj [(''jsonrpc'', JStr ''2.0''),
                      (''error'',
                       JObj [(''code'', JNum (- 32602)),
                             (''message'',
                              JStr ''platformManager.isRemoteWorkspace is not a function'')]),
                      (''id'', id_or_null (spread (body req)))])),
      headers = [], frames = [], effects = []\<rparr>
   \<and> handleSseOpen env st sessionId req =
     (\<lparr>sent = Some (SentText 400 ''platformManager.isRemoteWorkspace is not a function''),
       headers = [(''Content-Type'', ''text/event-stream''),
                  (''Cache-Control'', ''no-cache''),
                  (''Connection'', ''keep-alive'')],
       frames = [],
       effects = [TransportClose sessionId]\<rparr>, st)
   \<and> dispatch sampleEnv no_sessions ''s1''
       (sampleRequest POST ''/mcp/aggregator'' (Some ''Bearer secret'') (Some (Single ''beta'')))
     = (\<lparr>sent = Some (SentJson 400
                 (JObj [(''jsonrpc'', JStr ''2.0''),
                        (''error'',
                         JObj [(''code'', JNum (- 32602)),
                               (''message'',
                                JStr ''platformManager.isRemoteWorkspace is not a function'')]),
                        (''id'', JNum 1)])),
         headers = [], frames = [], effects = [ValidateToken ''secret'']\<rparr>,
        no_sessions)
   \<and> findByName sampleEnv ''beta'' = None
   \<and> ''platformManager.isRemoteWorkspace is not a function''
       \<noteq> ''Project '' @ [CHR 0x22] @ ''beta'' @ [CHR 0x22] @ '' not found''
   \<and> dispatch sampleEnv no_sessions ''s1''
       (sampleRequest POST ''/mcp/aggregator'' (Some ''Bearer secret'') (Some (Single ''alpha'')))
     = dispatch sampleEnv no_sessions ''s1''
       (sampleRequest POST ''/mcp/aggregator'' (Some ''Bearer secret'') (Some (Single ''beta'')))"
  by (simp add: handleAggregator_throws handleSseOpen_throws dispatch_def use_auth_def
        mount_matches_def authMiddleware_def routes_def on_route_def route_matches_def
        handles_method_def to_lower_def sampleEnv_def sampleRequest_def sampleBody_def
        strip_bearer_def with_effects_def id_or_null_def lookup_def Let_def)

subsection \<open>The stream-message route validates the project header\<close>







subsection \<open>The facade route\<close>

text \<open>
  Claim C4. The facade route hands the copy of the request body to the Entry MCP
  server's transport as it is: with a valid token and the project header \<^verbatim>\<open>alpha\<close>,
  the forwarded body is the request body, without \<^verbatim>\<open>params\<close> and so without
  \<^verbatim>\<open>_meta\<close>, and the project header is not resolved. The function that the other
  handlers call on the body copy, \<^verbatim>\<open>attachRequestMetadata\<close>, would add
  \<^verbatim>\<open>params._meta = {token, projectId}\<close> to this body. The facade handler reads
  neither the authorization header nor the project header.
\<close>

theorem facade_forwards_without_metadata:
  "dispatch sampleEnv no_sessions ''s1''
     (sampleRequest POST ''/mcp'' (Some ''Bearer secret'') (Some (Single ''alpha'')))
     = (\<lparr>sent = None, headers = [], frames = [],
         effects =
           [ValidateToken ''secret'',
            EntryHandleRequest
              [(''jsonrpc'', JStr ''2.0''), (''id'', JNum 1),
               (''method'', JStr ''tools/list'')]]\<rparr>,
        no_sessions)
   \<and> attachRequestMetadata
        [(''jsonrpc'', JStr ''2.0''), (''id'', JNum 1), (''method'', JStr ''tools/list'')]
        (Some ''secret'') (Some ''p-1'')
     = [(''jsonrpc'', JStr ''2.0''), (''id'', JNum 1), (''method'', JStr ''tools/list''),
        (''params'',
         JObj [(''_meta'',
                JObj [(''token'', JStr ''secret''), (''projectId'', JStr ''p-1'')])])]
   \<and> handleMcp env (req\<lparr>authorization := a, project_header := h\<rparr>) = handleMcp env req"
  by (simp add: dispatch_def use_auth_def mount_matches_def authMiddleware_def routes_def
        on_route_def route_matches_def handles_method_def to_lower_def
        handleMcp_def attachRequestMetadata_def
        sampleEnv_def sampleRequest_def sampleBody_def strip_bearer_def with_effects_def
        handed_over_def lookup_def token_value_def project_value_def no_sessions_def
        Let_def)

subsection \<open>The stream-open route\<close>


subsection \<open>The session table\<close>







end
